theory Spec2Isabelle
  imports Main "HOL-Library.Word"
begin

section \<open>The generated C boundary of the line\_descriptor and ximgproc modules\<close>

text \<open>
  The two translation units hold 219 functions with C linkage, of seven shapes. Six are
  destructors (\<^verbatim>\<open>delete instance;\<close>); the other 213 are one \<^verbatim>\<open>try\<close> block closed by the
  macro \<^verbatim>\<open>OCVRS_CATCH\<close>: a native call with no result, a native call whose result is returned
  by value, a native call whose result is copied into a fresh heap cell, a \<^verbatim>\<open>new\<close> of a
  native class, a read of one field and a write of one field.

  The wrapped library is not part of the program: every native function, constructor and
  method is a parameter of the wrapper that calls it. The memory is explicit, since the
  field accessors and the destructors act on it through raw pointers.
\<close>

subsection \<open>Values and objects\<close>

text \<open>
  A pointer is an address; address 0 is the null pointer. An \<^verbatim>\<open>int\<close> is a 32-bit word. The
  wrappers only copy \<^verbatim>\<open>float\<close> values, never compute with them, so a \<^verbatim>\<open>float\<close> is its 32-bit
  pattern, and a \<^verbatim>\<open>cv::Point2f\<close> is a pair of them.
\<close>

type_synonym addr = nat

abbreviation nullptr :: addr where
  "nullptr \<equiv> 0"

type_synonym c_int = "32 word"
type_synonym c_float = "32 word"
type_synonym Point2f = "c_float \<times> c_float"

text \<open>
  \<^verbatim>\<open>cv::line_descriptor::BinaryDescriptor::Params\<close>, with the four fields the accessors reach.
  The source's \<^verbatim>\<open>numOfOctave_\<close>, \<^verbatim>\<open>widthOfBand_\<close> and \<^verbatim>\<open>ksize_\<close> lose their last underscore
  here, which an Isabelle name cannot end with.
\<close>

record Params =
  numOfOctave :: c_int
  widthOfBand :: c_int
  reductionRatio :: c_int
  ksize :: c_int

text \<open>
  \<^verbatim>\<open>cv::line_descriptor::KeyLine\<close>, with the sixteen fields the accessors reach; the field
  \<^verbatim>\<open>size\<close> is \<open>size_KeyLine\<close>.
\<close>

record KeyLine =
  angle :: c_float
  class_id :: c_int
  octave :: c_int
  pt :: Point2f
  response :: c_float
  size_KeyLine :: c_float
  startPointX :: c_float
  startPointY :: c_float
  endPointX :: c_float
  endPointY :: c_float
  sPointInOctaveX :: c_float
  sPointInOctaveY :: c_float
  ePointInOctaveX :: c_float
  ePointInOctaveY :: c_float
  lineLength :: c_float
  numOfPixels :: c_int

text \<open>
  What a live address holds. Objects of every other native class (descriptors, matrices,
  vectors, smart pointers) are opaque to the wrappers: such a cell holds the name of the
  class, as the \<^verbatim>\<open>new\<close> that made the object writes it, and a state of type \<open>'n\<close>.
\<close>

datatype 'n object =
    Params_object Params
  | KeyLine_object KeyLine
  | Point2f_object Point2f
  | Native_object string 'n

fun class_of :: "'n object \<Rightarrow> string" where
  "class_of (Params_object obj) = ''cv::line_descriptor::BinaryDescriptor::Params''"
| "class_of (KeyLine_object obj) = ''cv::line_descriptor::KeyLine''"
| "class_of (Point2f_object obj) = ''cv::Point2f''"
| "class_of (Native_object T obj) = T"

text \<open>
  The memory: the live objects, and the address the next \<^verbatim>\<open>new\<close> returns. Allocation never
  runs out of addresses.
\<close>

record 'n memory =
  objs :: "addr \<Rightarrow> 'n object option"
  brk :: addr


subsection \<open>The result envelope and the catch macro of common.hpp\<close>

text \<open>
  What a native call throws: a message and, where the exception has one, a numeric code.
\<close>

datatype native_exception =
  Native_exception (exn_code: "c_int option") (exn_what: string)

datatype error_kind = Native_operation_failed

record error_record =
  kind :: error_kind
  code :: "c_int option"
  message :: string

text \<open>
  Modelled from the spec: \<^verbatim>\<open>Result<T>\<close>, \<^verbatim>\<open>Result_void\<close> and \<^verbatim>\<open>Ok\<close> of common.hpp, which the
  two files include and which is not among the sources. The spec has the envelope as a
  tagged union of a success value and an error record, the error record holding a
  classification, of the single kind "native operation failed", the message of the native
  exception and its numeric code where there is one. \<^verbatim>\<open>Result_void\<close> is \<open>unit Result\<close>.
\<close>

datatype 'a Result = Ok 'a | Err error_record

fun is_Ok :: "'a Result \<Rightarrow> bool" where
  "is_Ok (Ok v) = True"
| "is_Ok (Err e) = False"

fun is_Err :: "'a Result \<Rightarrow> bool" where
  "is_Err (Ok v) = False"
| "is_Err (Err e) = True"

text \<open>
  A statement sequence inside a \<^verbatim>\<open>try\<close> block, run on a memory: \<open>None\<close> is undefined
  behaviour (a pointer that is null or dangling is dereferenced), \<open>Inl e\<close> is the exception
  \<open>e\<close> leaving the sequence, \<open>Inr v\<close> is the value \<open>v\<close>. The memory comes back in both cases:
  what a native call wrote before it threw stays written.
\<close>

type_synonym ('a, 'n) block =
  "'n memory \<Rightarrow> ((native_exception + 'a) \<times> 'n memory) option"

definition yield :: "'a \<Rightarrow> ('a, 'n) block" where
  "yield v m = Some (Inr v, m)"

definition seq :: "('a, 'n) block \<Rightarrow> ('a \<Rightarrow> ('b, 'n) block) \<Rightarrow> ('b, 'n) block" where
  "seq f g m =
     (case f m of
        None \<Rightarrow> None
      | Some (Inl e, m') \<Rightarrow> Some (Inl e, m')
      | Some (Inr v, m') \<Rightarrow> g v m')"

text \<open>
  Modelled from the spec: the macro \<^verbatim>\<open>OCVRS_CATCH\<close> of common.hpp, which closes every \<^verbatim>\<open>try\<close>
  block of the two files and is not among the sources. The spec has every exception of the
  native call intercepted at the boundary and converted into an error record that carries
  its message and code; nothing propagates to the caller.
\<close>

definition error_of :: "native_exception \<Rightarrow> error_record" where
  "error_of e = \<lparr>kind = Native_operation_failed, code = exn_code e, message = exn_what e\<rparr>"

definition OCVRS_CATCH ::
  "('a Result, 'n) block \<Rightarrow> 'n memory \<Rightarrow> ('a Result \<times> 'n memory) option" where
  "OCVRS_CATCH body m =
     (case body m of
        None \<Rightarrow> None
      | Some (Inl e, m') \<Rightarrow> Some (Err (error_of e), m')
      | Some (Inr r, m') \<Rightarrow> Some (r, m'))"

subsection \<open>Pointers\<close>

text \<open>
  \<^verbatim>\<open>*p\<close> for every pointer argument that a wrapper hands to the native call by reference.
\<close>

definition live :: "addr list \<Rightarrow> (unit, 'n) block" where
  "live ps m = (if list_all (\<lambda>p. objs m p \<noteq> None) ps then Some (Inr (), m) else None)"

text \<open>\<^verbatim>\<open>instance->\<close> on a pointer to a \<^verbatim>\<open>Params\<close>, to a \<^verbatim>\<open>KeyLine\<close>, and \<^verbatim>\<open>*val\<close> on a pointer to a \<^verbatim>\<open>cv::Point2f\<close>.\<close>

definition Params_at :: "addr \<Rightarrow> (Params, 'n) block" where
  "Params_at p m =
     (case objs m p of Some (Params_object obj) \<Rightarrow> Some (Inr obj, m) | _ \<Rightarrow> None)"

definition KeyLine_at :: "addr \<Rightarrow> (KeyLine, 'n) block" where
  "KeyLine_at p m =
     (case objs m p of Some (KeyLine_object obj) \<Rightarrow> Some (Inr obj, m) | _ \<Rightarrow> None)"

definition Point2f_at :: "addr \<Rightarrow> (Point2f, 'n) block" where
  "Point2f_at p m =
     (case objs m p of Some (Point2f_object obj) \<Rightarrow> Some (Inr obj, m) | _ \<Rightarrow> None)"

text \<open>The assignment \<^verbatim>\<open>instance->field = val\<close>, as the object at \<open>instance\<close> with the field replaced.\<close>

definition assign :: "addr \<Rightarrow> 'n object \<Rightarrow> (unit, 'n) block" where
  "assign p obj m = Some (Inr (), m\<lparr>objs := (objs m)(p \<mapsto> obj)\<rparr>)"

text \<open>\<^verbatim>\<open>new T(...)\<close>: the object goes to the next free address.\<close>

definition new_object :: "'n object \<Rightarrow> (addr, 'n) block" where
  "new_object obj m =
     Some (Inr (brk m), m\<lparr>objs := (objs m)(brk m \<mapsto> obj), brk := Suc (brk m)\<rparr>)"

text \<open>
  \<^verbatim>\<open>delete p\<close> for a pointer \<^verbatim>\<open>T* p\<close>: nothing for the null pointer, the release of a live
  object of class \<^verbatim>\<open>T\<close>, and undefined behaviour for any other address and for an object
  of another class. There is no \<^verbatim>\<open>try\<close> block around it and nothing is returned.
\<close>

definition delete_object :: "string \<Rightarrow> addr \<Rightarrow> 'n memory \<Rightarrow> 'n memory option" where
  "delete_object T p m =
     (if p = nullptr then Some m
      else case objs m p of
        None \<Rightarrow> None
      | Some obj \<Rightarrow>
          if class_of obj = T then Some (m\<lparr>objs := (objs m)(p := None)\<rparr>) else None)"

subsection \<open>The four shapes of a guarded native call\<close>

text \<open>
  \<^verbatim>\<open>try { f(*p, ..., x); return Ok(); } OCVRS_CATCH(...)\<close>: 99 entry points.
\<close>

definition guarded_call :: "addr list \<Rightarrow> (unit, 'n) block \<Rightarrow> 'n memory \<Rightarrow> (unit Result \<times> 'n memory) option" where
  "guarded_call ps f = OCVRS_CATCH (seq (live ps) (\<lambda>_. seq f (\<lambda>_. yield (Ok ()))))"

text \<open>
  \<^verbatim>\<open>try { T ret = f(*p, ..., x); return Ok(ret); } OCVRS_CATCH(...)\<close>: 38 entry points.
\<close>

definition guarded_value :: "addr list \<Rightarrow> ('a, 'n) block \<Rightarrow> 'n memory \<Rightarrow> ('a Result \<times> 'n memory) option" where
  "guarded_value ps f = OCVRS_CATCH (seq (live ps) (\<lambda>_. seq f (\<lambda>ret. yield (Ok ret))))"

text \<open>
  \<^verbatim>\<open>try { T ret = f(*p, ..., x); return Ok(new T(ret)); } OCVRS_CATCH(...)\<close>: 31 entry points,
  30 for a \<^verbatim>\<open>cv::Ptr\<close> and one for a \<^verbatim>\<open>cv::Mat\<close>. The new cell is an object of class \<^verbatim>\<open>T\<close>.
\<close>

definition guarded_boxed ::
  "string \<Rightarrow> addr list \<Rightarrow> ('n, 'n) block \<Rightarrow> 'n memory \<Rightarrow> (addr Result \<times> 'n memory) option" where
  "guarded_boxed T ps f =
     OCVRS_CATCH (seq (live ps) (\<lambda>_. seq f (\<lambda>ret.
       seq (new_object (Native_object T ret)) (\<lambda>handle. yield (Ok handle)))))"

text \<open>
  \<^verbatim>\<open>try { T* ret = new T(*p, ...); return Ok(ret); } OCVRS_CATCH(...)\<close>: 5 entry points. The
  constructor of \<^verbatim>\<open>T\<close> is native: it gives the object that the new cell holds, or throws.
\<close>

definition guarded_new :: "addr list \<Rightarrow> ('n object, 'n) block \<Rightarrow> 'n memory \<Rightarrow> (addr Result \<times> 'n memory) option" where
  "guarded_new ps ctor =
     OCVRS_CATCH (seq (live ps) (\<lambda>_. seq ctor (\<lambda>obj.
       seq (new_object obj) (\<lambda>ret. yield (Ok ret)))))"

subsection \<open>Entry points that forward to the library\<close>

text \<open>
  Each takes the native function it forwards to as its first argument. A \<^verbatim>\<open>double\<close> is its
  64-bit pattern.
\<close>

type_synonym c_double = "64 word"

definition cv_line_descriptor_drawKeylines_const_MatR_const_vector_KeyLine_R_MatR_const_ScalarR_int ::
  "(addr \<Rightarrow> addr \<Rightarrow> addr \<Rightarrow> addr \<Rightarrow> c_int \<Rightarrow> (unit, 'n) block) \<Rightarrow>
   addr \<Rightarrow> addr \<Rightarrow> addr \<Rightarrow> addr \<Rightarrow> c_int \<Rightarrow> 'n memory \<Rightarrow> (unit Result \<times> 'n memory) option" where
  "cv_line_descriptor_drawKeylines_const_MatR_const_vector_KeyLine_R_MatR_const_ScalarR_int
     drawKeylines image' keylines outImage color flags =
     guarded_call [image', keylines, outImage, color]
       (drawKeylines image' keylines outImage color flags)"


definition cv_ximgproc_FastHoughTransform_const__InputArrayR_const__OutputArrayR_int_int_int_int ::
  "(addr \<Rightarrow> addr \<Rightarrow> c_int \<Rightarrow> c_int \<Rightarrow> c_int \<Rightarrow> c_int \<Rightarrow> (unit, 'n) block) \<Rightarrow>
   addr \<Rightarrow> addr \<Rightarrow> c_int \<Rightarrow> c_int \<Rightarrow> c_int \<Rightarrow> c_int \<Rightarrow> 'n memory \<Rightarrow>
   (unit Result \<times> 'n memory) option" where
  "cv_ximgproc_FastHoughTransform_const__InputArrayR_const__OutputArrayR_int_int_int_int
     FastHoughTransform src dst dstMatDepth angleRange op makeSkew =
     guarded_call [src, dst] (FastHoughTransform src dst dstMatDepth angleRange op makeSkew)"


definition cv_ximgproc_createAMFilter_double_double_bool ::
  "(c_double \<Rightarrow> c_double \<Rightarrow> bool \<Rightarrow> ('n, 'n) block) \<Rightarrow>
   c_double \<Rightarrow> c_double \<Rightarrow> bool \<Rightarrow> 'n memory \<Rightarrow> (addr Result \<times> 'n memory) option" where
  "cv_ximgproc_createAMFilter_double_double_bool createAMFilter sigma_s sigma_r adjust_outliers =
     guarded_boxed ''cv::Ptr<cv::ximgproc::AdaptiveManifoldFilter>'' []
       (createAMFilter sigma_s sigma_r adjust_outliers)"


definition cv_line_descriptor_BinaryDescriptor_createBinaryDescriptor ::
  "('n, 'n) block \<Rightarrow> 'n memory \<Rightarrow> (addr Result \<times> 'n memory) option" where
  "cv_line_descriptor_BinaryDescriptor_createBinaryDescriptor createBinaryDescriptor =
     guarded_boxed ''cv::Ptr<cv::line_descriptor::BinaryDescriptor>'' [] createBinaryDescriptor"

subsection \<open>Constructors and destructors of the line\_descriptor classes\<close>






text \<open>
  The six destructors have one body, \<^verbatim>\<open>delete instance;\<close>, and return \<^verbatim>\<open>void\<close>; they differ
  in the class of the parameter \<^verbatim>\<open>instance\<close>.
\<close>

definition cv_BinaryDescriptor_delete :: "addr \<Rightarrow> 'n memory \<Rightarrow> 'n memory option" where
  "cv_BinaryDescriptor_delete instance =
     delete_object ''cv::line_descriptor::BinaryDescriptor'' instance"

definition cv_BinaryDescriptor_Params_delete :: "addr \<Rightarrow> 'n memory \<Rightarrow> 'n memory option" where
  "cv_BinaryDescriptor_Params_delete instance =
     delete_object ''cv::line_descriptor::BinaryDescriptor::Params'' instance"

definition cv_BinaryDescriptorMatcher_delete :: "addr \<Rightarrow> 'n memory \<Rightarrow> 'n memory option" where
  "cv_BinaryDescriptorMatcher_delete instance =
     delete_object ''cv::line_descriptor::BinaryDescriptorMatcher'' instance"

definition cv_DrawLinesMatchesFlags_delete :: "addr \<Rightarrow> 'n memory \<Rightarrow> 'n memory option" where
  "cv_DrawLinesMatchesFlags_delete instance =
     delete_object ''cv::line_descriptor::DrawLinesMatchesFlags'' instance"

definition cv_KeyLine_delete :: "addr \<Rightarrow> 'n memory \<Rightarrow> 'n memory option" where
  "cv_KeyLine_delete instance = delete_object ''cv::line_descriptor::KeyLine'' instance"

definition cv_LSDDetector_delete :: "addr \<Rightarrow> 'n memory \<Rightarrow> 'n memory option" where
  "cv_LSDDetector_delete instance = delete_object ''cv::line_descriptor::LSDDetector'' instance"

definition destructors :: "(addr \<Rightarrow> 'n memory \<Rightarrow> 'n memory option) list" where
  "destructors =
     [cv_BinaryDescriptor_delete, cv_BinaryDescriptor_Params_delete,
      cv_BinaryDescriptorMatcher_delete, cv_DrawLinesMatchesFlags_delete,
      cv_KeyLine_delete, cv_LSDDetector_delete]"

subsection \<open>Field accessors of Params and KeyLine\<close>

definition cv_line_descriptor_BinaryDescriptor_Params_getPropNumOfOctave__const ::
  "addr \<Rightarrow> 'n memory \<Rightarrow> (c_int Result \<times> 'n memory) option" where
  "cv_line_descriptor_BinaryDescriptor_Params_getPropNumOfOctave__const instance =
     OCVRS_CATCH (seq (Params_at instance) (\<lambda>obj. seq (yield (numOfOctave obj)) (\<lambda>ret. yield (Ok ret))))"

definition cv_line_descriptor_BinaryDescriptor_Params_setPropNumOfOctave__int ::
  "addr \<Rightarrow> c_int \<Rightarrow> 'n memory \<Rightarrow> (unit Result \<times> 'n memory) option" where
  "cv_line_descriptor_BinaryDescriptor_Params_setPropNumOfOctave__int instance val =
     OCVRS_CATCH (seq (Params_at instance) (\<lambda>obj.
       seq (assign instance (Params_object (obj\<lparr>numOfOctave := val\<rparr>))) (\<lambda>_. yield (Ok ()))))"

definition cv_line_descriptor_BinaryDescriptor_Params_getPropWidthOfBand__const ::
  "addr \<Rightarrow> 'n memory \<Rightarrow> (c_int Result \<times> 'n memory) option" where
  "cv_line_descriptor_BinaryDescriptor_Params_getPropWidthOfBand__const instance =
     OCVRS_CATCH (seq (Params_at instance) (\<lambda>obj. seq (yield (widthOfBand obj)) (\<lambda>ret. yield (Ok ret))))"

definition cv_line_descriptor_BinaryDescriptor_Params_setPropWidthOfBand__int ::
  "addr \<Rightarrow> c_int \<Rightarrow> 'n memory \<Rightarrow> (unit Result \<times> 'n memory) option" where
  "cv_line_descriptor_BinaryDescriptor_Params_setPropWidthOfBand__int instance val =
     OCVRS_CATCH (seq (Params_at instance) (\<lambda>obj.
       seq (assign instance (Params_object (obj\<lparr>widthOfBand := val\<rparr>))) (\<lambda>_. yield (Ok ()))))"

definition cv_line_descriptor_BinaryDescriptor_Params_getPropReductionRatio_const ::
  "addr \<Rightarrow> 'n memory \<Rightarrow> (c_int Result \<times> 'n memory) option" where
  "cv_line_descriptor_BinaryDescriptor_Params_getPropReductionRatio_const instance =
     OCVRS_CATCH (seq (Params_at instance) (\<lambda>obj. seq (yield (reductionRatio obj)) (\<lambda>ret. yield (Ok ret))))"

definition cv_line_descriptor_BinaryDescriptor_Params_setPropReductionRatio_int ::
  "addr \<Rightarrow> c_int \<Rightarrow> 'n memory \<Rightarrow> (unit Result \<times> 'n memory) option" where
  "cv_line_descriptor_BinaryDescriptor_Params_setPropReductionRatio_int instance val =
     OCVRS_CATCH (seq (Params_at instance) (\<lambda>obj.
       seq (assign instance (Params_object (obj\<lparr>reductionRatio := val\<rparr>))) (\<lambda>_. yield (Ok ()))))"

definition cv_line_descriptor_BinaryDescriptor_Params_getPropKsize__const ::
  "addr \<Rightarrow> 'n memory \<Rightarrow> (c_int Result \<times> 'n memory) option" where
  "cv_line_descriptor_BinaryDescriptor_Params_getPropKsize__const instance =
     OCVRS_CATCH (seq (Params_at instance) (\<lambda>obj. seq (yield (ksize obj)) (\<lambda>ret. yield (Ok ret))))"

definition cv_line_descriptor_BinaryDescriptor_Params_setPropKsize__int ::
  "addr \<Rightarrow> c_int \<Rightarrow> 'n memory \<Rightarrow> (unit Result \<times> 'n memory) option" where
  "cv_line_descriptor_BinaryDescriptor_Params_setPropKsize__int instance val =
     OCVRS_CATCH (seq (Params_at instance) (\<lambda>obj.
       seq (assign instance (Params_object (obj\<lparr>ksize := val\<rparr>))) (\<lambda>_. yield (Ok ()))))"

definition cv_line_descriptor_KeyLine_getPropAngle_const ::
  "addr \<Rightarrow> 'n memory \<Rightarrow> (c_float Result \<times> 'n memory) option" where
  "cv_line_descriptor_KeyLine_getPropAngle_const instance =
     OCVRS_CATCH (seq (KeyLine_at instance) (\<lambda>obj. seq (yield (angle obj)) (\<lambda>ret. yield (Ok ret))))"

definition cv_line_descriptor_KeyLine_setPropAngle_float ::
  "addr \<Rightarrow> c_float \<Rightarrow> 'n memory \<Rightarrow> (unit Result \<times> 'n memory) option" where
  "cv_line_descriptor_KeyLine_setPropAngle_float instance val =
     OCVRS_CATCH (seq (KeyLine_at instance) (\<lambda>obj.
       seq (assign instance (KeyLine_object (obj\<lparr>angle := val\<rparr>))) (\<lambda>_. yield (Ok ()))))"

definition cv_line_descriptor_KeyLine_getPropClass_id_const ::
  "addr \<Rightarrow> 'n memory \<Rightarrow> (c_int Result \<times> 'n memory) option" where
  "cv_line_descriptor_KeyLine_getPropClass_id_const instance =
     OCVRS_CATCH (seq (KeyLine_at instance) (\<lambda>obj. seq (yield (class_id obj)) (\<lambda>ret. yield (Ok ret))))"

definition cv_line_descriptor_KeyLine_setPropClass_id_int ::
  "addr \<Rightarrow> c_int \<Rightarrow> 'n memory \<Rightarrow> (unit Result \<times> 'n memory) option" where
  "cv_line_descriptor_KeyLine_setPropClass_id_int instance val =
     OCVRS_CATCH (seq (KeyLine_at instance) (\<lambda>obj.
       seq (assign instance (KeyLine_object (obj\<lparr>class_id := val\<rparr>))) (\<lambda>_. yield (Ok ()))))"

definition cv_line_descriptor_KeyLine_getPropOctave_const ::
  "addr \<Rightarrow> 'n memory \<Rightarrow> (c_int Result \<times> 'n memory) option" where
  "cv_line_descriptor_KeyLine_getPropOctave_const instance =
     OCVRS_CATCH (seq (KeyLine_at instance) (\<lambda>obj. seq (yield (octave obj)) (\<lambda>ret. yield (Ok ret))))"

definition cv_line_descriptor_KeyLine_setPropOctave_int ::
  "addr \<Rightarrow> c_int \<Rightarrow> 'n memory \<Rightarrow> (unit Result \<times> 'n memory) option" where
  "cv_line_descriptor_KeyLine_setPropOctave_int instance val =
     OCVRS_CATCH (seq (KeyLine_at instance) (\<lambda>obj.
       seq (assign instance (KeyLine_object (obj\<lparr>octave := val\<rparr>))) (\<lambda>_. yield (Ok ()))))"

definition cv_line_descriptor_KeyLine_getPropPt_const ::
  "addr \<Rightarrow> 'n memory \<Rightarrow> (Point2f Result \<times> 'n memory) option" where
  "cv_line_descriptor_KeyLine_getPropPt_const instance =
     OCVRS_CATCH (seq (KeyLine_at instance) (\<lambda>obj. seq (yield (pt obj)) (\<lambda>ret. yield (Ok ret))))"

definition cv_line_descriptor_KeyLine_setPropPt_Point2f ::
  "addr \<Rightarrow> addr \<Rightarrow> 'n memory \<Rightarrow> (unit Result \<times> 'n memory) option" where
  "cv_line_descriptor_KeyLine_setPropPt_Point2f instance val =
     OCVRS_CATCH (seq (KeyLine_at instance) (\<lambda>obj. seq (Point2f_at val) (\<lambda>v.
       seq (assign instance (KeyLine_object (obj\<lparr>pt := v\<rparr>))) (\<lambda>_. yield (Ok ())))))"

definition cv_line_descriptor_KeyLine_getPropResponse_const ::
  "addr \<Rightarrow> 'n memory \<Rightarrow> (c_float Result \<times> 'n memory) option" where
  "cv_line_descriptor_KeyLine_getPropResponse_const instance =
     OCVRS_CATCH (seq (KeyLine_at instance) (\<lambda>obj. seq (yield (response obj)) (\<lambda>ret. yield (Ok ret))))"

definition cv_line_descriptor_KeyLine_setPropResponse_float ::
  "addr \<Rightarrow> c_float \<Rightarrow> 'n memory \<Rightarrow> (unit Result \<times> 'n memory) option" where
  "cv_line_descriptor_KeyLine_setPropResponse_float instance val =
     OCVRS_CATCH (seq (KeyLine_at instance) (\<lambda>obj.
       seq (assign instance (KeyLine_object (obj\<lparr>response := val\<rparr>))) (\<lambda>_. yield (Ok ()))))"

definition cv_line_descriptor_KeyLine_getPropSize_const ::
  "addr \<Rightarrow> 'n memory \<Rightarrow> (c_float Result \<times> 'n memory) option" where
  "cv_line_descriptor_KeyLine_getPropSize_const instance =
     OCVRS_CATCH (seq (KeyLine_at instance) (\<lambda>obj. seq (yield (size_KeyLine obj)) (\<lambda>ret. yield (Ok ret))))"

definition cv_line_descriptor_KeyLine_setPropSize_float ::
  "addr \<Rightarrow> c_float \<Rightarrow> 'n memory \<Rightarrow> (unit Result \<times> 'n memory) option" where
  "cv_line_descriptor_KeyLine_setPropSize_float instance val =
     OCVRS_CATCH (seq (KeyLine_at instance) (\<lambda>obj.
       seq (assign instance (KeyLine_object (obj\<lparr>size_KeyLine := val\<rparr>))) (\<lambda>_. yield (Ok ()))))"

definition cv_line_descriptor_KeyLine_getPropStartPointX_const ::
  "addr \<Rightarrow> 'n memory \<Rightarrow> (c_float Result \<times> 'n memory) option" where
  "cv_line_descriptor_KeyLine_getPropStartPointX_const instance =
     OCVRS_CATCH (seq (KeyLine_at instance) (\<lambda>obj. seq (yield (startPointX obj)) (\<lambda>ret. yield (Ok ret))))"

definition cv_line_descriptor_KeyLine_setPropStartPointX_float ::
  "addr \<Rightarrow> c_float \<Rightarrow> 'n memory \<Rightarrow> (unit Result \<times> 'n memory) option" where
  "cv_line_descriptor_KeyLine_setPropStartPointX_float instance val =
     OCVRS_CATCH (seq (KeyLine_at instance) (\<lambda>obj.
       seq (assign instance (KeyLine_object (obj\<lparr>startPointX := val\<rparr>))) (\<lambda>_. yield (Ok ()))))"

definition cv_line_descriptor_KeyLine_getPropStartPointY_const ::
  "addr \<Rightarrow> 'n memory \<Rightarrow> (c_float Result \<times> 'n memory) option" where
  "cv_line_descriptor_KeyLine_getPropStartPointY_const instance =
     OCVRS_CATCH (seq (KeyLine_at instance) (\<lambda>obj. seq (yield (startPointY obj)) (\<lambda>ret. yield (Ok ret))))"

definition cv_line_descriptor_KeyLine_setPropStartPointY_float ::
  "addr \<Rightarrow> c_float \<Rightarrow> 'n memory \<Rightarrow> (unit Result \<times> 'n memory) option" where
  "cv_line_descriptor_KeyLine_setPropStartPointY_float instance val =
     OCVRS_CATCH (seq (KeyLine_at instance) (\<lambda>obj.
       seq (assign instance (KeyLine_object (obj\<lparr>startPointY := val\<rparr>))) (\<lambda>_. yield (Ok ()))))"

definition cv_line_descriptor_KeyLine_getPropEndPointX_const ::
  "addr \<Rightarrow> 'n memory \<Rightarrow> (c_float Result \<times> 'n memory) option" where
  "cv_line_descriptor_KeyLine_getPropEndPointX_const instance =
     OCVRS_CATCH (seq (KeyLine_at instance) (\<lambda>obj. seq (yield (endPointX obj)) (\<lambda>ret. yield (Ok ret))))"

definition cv_line_descriptor_KeyLine_setPropEndPointX_float ::
  "addr \<Rightarrow> c_float \<Rightarrow> 'n memory \<Rightarrow> (unit Result \<times> 'n memory) option" where
  "cv_line_descriptor_KeyLine_setPropEndPointX_float instance val =
     OCVRS_CATCH (seq (KeyLine_at instance) (\<lambda>obj.
       seq (assign instance (KeyLine_object (obj\<lparr>endPointX := val\<rparr>))) (\<lambda>_. yield (Ok ()))))"

definition cv_line_descriptor_KeyLine_getPropEndPointY_const ::
  "addr \<Rightarrow> 'n memory \<Rightarrow> (c_float Result \<times> 'n memory) option" where
  "cv_line_descriptor_KeyLine_getPropEndPointY_const instance =
     OCVRS_CATCH (seq (KeyLine_at instance) (\<lambda>obj. seq (yield (endPointY obj)) (\<lambda>ret. yield (Ok ret))))"

definition cv_line_descriptor_KeyLine_setPropEndPointY_float ::
  "addr \<Rightarrow> c_float \<Rightarrow> 'n memory \<Rightarrow> (unit Result \<times> 'n memory) option" where
  "cv_line_descriptor_KeyLine_setPropEndPointY_float instance val =
     OCVRS_CATCH (seq (KeyLine_at instance) (\<lambda>obj.
       seq (assign instance (KeyLine_object (obj\<lparr>endPointY := val\<rparr>))) (\<lambda>_. yield (Ok ()))))"

definition cv_line_descriptor_KeyLine_getPropSPointInOctaveX_const ::
  "addr \<Rightarrow> 'n memory \<Rightarrow> (c_float Result \<times> 'n memory) option" where
  "cv_line_descriptor_KeyLine_getPropSPointInOctaveX_const instance =
     OCVRS_CATCH (seq (KeyLine_at instance) (\<lambda>obj. seq (yield (sPointInOctaveX obj)) (\<lambda>ret. yield (Ok ret))))"

definition cv_line_descriptor_KeyLine_setPropSPointInOctaveX_float ::
  "addr \<Rightarrow> c_float \<Rightarrow> 'n memory \<Rightarrow> (unit Result \<times> 'n memory) option" where
  "cv_line_descriptor_KeyLine_setPropSPointInOctaveX_float instance val =
     OCVRS_CATCH (seq (KeyLine_at instance) (\<lambda>obj.
       seq (assign instance (KeyLine_object (obj\<lparr>sPointInOctaveX := val\<rparr>))) (\<lambda>_. yield (Ok ()))))"

definition cv_line_descriptor_KeyLine_getPropSPointInOctaveY_const ::
  "addr \<Rightarrow> 'n memory \<Rightarrow> (c_float Result \<times> 'n memory) option" where
  "cv_line_descriptor_KeyLine_getPropSPointInOctaveY_const instance =
     OCVRS_CATCH (seq (KeyLine_at instance) (\<lambda>obj. seq (yield (sPointInOctaveY obj)) (\<lambda>ret. yield (Ok ret))))"

definition cv_line_descriptor_KeyLine_setPropSPointInOctaveY_float ::
  "addr \<Rightarrow> c_float \<Rightarrow> 'n memory \<Rightarrow> (unit Result \<times> 'n memory) option" where
  "cv_line_descriptor_KeyLine_setPropSPointInOctaveY_float instance val =
     OCVRS_CATCH (seq (KeyLine_at instance) (\<lambda>obj.
       seq (assign instance (KeyLine_object (obj\<lparr>sPointInOctaveY := val\<rparr>))) (\<lambda>_. yield (Ok ()))))"

definition cv_line_descriptor_KeyLine_getPropEPointInOctaveX_const ::
  "addr \<Rightarrow> 'n memory \<Rightarrow> (c_float Result \<times> 'n memory) option" where
  "cv_line_descriptor_KeyLine_getPropEPointInOctaveX_const instance =
     OCVRS_CATCH (seq (KeyLine_at instance) (\<lambda>obj. seq (yield (ePointInOctaveX obj)) (\<lambda>ret. yield (Ok ret))))"

definition cv_line_descriptor_KeyLine_setPropEPointInOctaveX_float ::
  "addr \<Rightarrow> c_float \<Rightarrow> 'n memory \<Rightarrow> (unit Result \<times> 'n memory) option" where
  "cv_line_descriptor_KeyLine_setPropEPointInOctaveX_float instance val =
     OCVRS_CATCH (seq (KeyLine_at instance) (\<lambda>obj.
       seq (assign instance (KeyLine_object (obj\<lparr>ePointInOctaveX := val\<rparr>))) (\<lambda>_. yield (Ok ()))))"

definition cv_line_descriptor_KeyLine_getPropEPointInOctaveY_const ::
  "addr \<Rightarrow> 'n memory \<Rightarrow> (c_float Result \<times> 'n memory) option" where
  "cv_line_descriptor_KeyLine_getPropEPointInOctaveY_const instance =
     OCVRS_CATCH (seq (KeyLine_at instance) (\<lambda>obj. seq (yield (ePointInOctaveY obj)) (\<lambda>ret. yield (Ok ret))))"

definition cv_line_descriptor_KeyLine_setPropEPointInOctaveY_float ::
  "addr \<Rightarrow> c_float \<Rightarrow> 'n memory \<Rightarrow> (unit Result \<times> 'n memory) option" where
  "cv_line_descriptor_KeyLine_setPropEPointInOctaveY_float instance val =
     OCVRS_CATCH (seq (KeyLine_at instance) (\<lambda>obj.
       seq (assign instance (KeyLine_object (obj\<lparr>ePointInOctaveY := val\<rparr>))) (\<lambda>_. yield (Ok ()))))"

definition cv_line_descriptor_KeyLine_getPropLineLength_const ::
  "addr \<Rightarrow> 'n memory \<Rightarrow> (c_float Result \<times> 'n memory) option" where
  "cv_line_descriptor_KeyLine_getPropLineLength_const instance =
     OCVRS_CATCH (seq (KeyLine_at instance) (\<lambda>obj. seq (yield (lineLength obj)) (\<lambda>ret. yield (Ok ret))))"

definition cv_line_descriptor_KeyLine_setPropLineLength_float ::
  "addr \<Rightarrow> c_float \<Rightarrow> 'n memory \<Rightarrow> (unit Result \<times> 'n memory) option" where
  "cv_line_descriptor_KeyLine_setPropLineLength_float instance val =
     OCVRS_CATCH (seq (KeyLine_at instance) (\<lambda>obj.
       seq (assign instance (KeyLine_object (obj\<lparr>lineLength := val\<rparr>))) (\<lambda>_. yield (Ok ()))))"

definition cv_line_descriptor_KeyLine_getPropNumOfPixels_const ::
  "addr \<Rightarrow> 'n memory \<Rightarrow> (c_int Result \<times> 'n memory) option" where
  "cv_line_descriptor_KeyLine_getPropNumOfPixels_const instance =
     OCVRS_CATCH (seq (KeyLine_at instance) (\<lambda>obj. seq (yield (numOfPixels obj)) (\<lambda>ret. yield (Ok ret))))"

definition cv_line_descriptor_KeyLine_setPropNumOfPixels_int ::
  "addr \<Rightarrow> c_int \<Rightarrow> 'n memory \<Rightarrow> (unit Result \<times> 'n memory) option" where
  "cv_line_descriptor_KeyLine_setPropNumOfPixels_int instance val =
     OCVRS_CATCH (seq (KeyLine_at instance) (\<lambda>obj.
       seq (assign instance (KeyLine_object (obj\<lparr>numOfPixels := val\<rparr>))) (\<lambda>_. yield (Ok ()))))"

definition Params_int_accessors ::
  "(string \<times> (addr \<Rightarrow> 'n memory \<Rightarrow> (c_int Result \<times> 'n memory) option) \<times>
    (addr \<Rightarrow> c_int \<Rightarrow> 'n memory \<Rightarrow> (unit Result \<times> 'n memory) option)) list" where
  "Params_int_accessors =
    [(''numOfOctave_'',
      cv_line_descriptor_BinaryDescriptor_Params_getPropNumOfOctave__const,
      cv_line_descriptor_BinaryDescriptor_Params_setPropNumOfOctave__int),
     (''widthOfBand_'',
      cv_line_descriptor_BinaryDescriptor_Params_getPropWidthOfBand__const,
      cv_line_descriptor_BinaryDescriptor_Params_setPropWidthOfBand__int),
     (''reductionRatio'',
      cv_line_descriptor_BinaryDescriptor_Params_getPropReductionRatio_const,
      cv_line_descriptor_BinaryDescriptor_Params_setPropReductionRatio_int),
     (''ksize_'',
      cv_line_descriptor_BinaryDescriptor_Params_getPropKsize__const,
      cv_line_descriptor_BinaryDescriptor_Params_setPropKsize__int)]"

definition KeyLine_float_accessors ::
  "(string \<times> (addr \<Rightarrow> 'n memory \<Rightarrow> (c_float Result \<times> 'n memory) option) \<times>
    (addr \<Rightarrow> c_float \<Rightarrow> 'n memory \<Rightarrow> (unit Result \<times> 'n memory) option)) list" where
  "KeyLine_float_accessors =
    [(''angle'',
      cv_line_descriptor_KeyLine_getPropAngle_const,
      cv_line_descriptor_KeyLine_setPropAngle_float),
     (''response'',
      cv_line_descriptor_KeyLine_getPropResponse_const,
      cv_line_descriptor_KeyLine_setPropResponse_float),
     (''size'',
      cv_line_descriptor_KeyLine_getPropSize_const,
      cv_line_descriptor_KeyLine_setPropSize_float),
     (''startPointX'',
      cv_line_descriptor_KeyLine_getPropStartPointX_const,
      cv_line_descriptor_KeyLine_setPropStartPointX_float),
     (''startPointY'',
      cv_line_descriptor_KeyLine_getPropStartPointY_const,
      cv_line_descriptor_KeyLine_setPropStartPointY_float),
     (''endPointX'',
      cv_line_descriptor_KeyLine_getPropEndPointX_const,
      cv_line_descriptor_KeyLine_setPropEndPointX_float),
     (''endPointY'',
      cv_line_descriptor_KeyLine_getPropEndPointY_const,
      cv_line_descriptor_KeyLine_setPropEndPointY_float),
     (''sPointInOctaveX'',
      cv_line_descriptor_KeyLine_getPropSPointInOctaveX_const,
      cv_line_descriptor_KeyLine_setPropSPointInOctaveX_float),
     (''sPointInOctaveY'',
      cv_line_descriptor_KeyLine_getPropSPointInOctaveY_const,
      cv_line_descriptor_KeyLine_setPropSPointInOctaveY_float),
     (''ePointInOctaveX'',
      cv_line_descriptor_KeyLine_getPropEPointInOctaveX_const,
      cv_line_descriptor_KeyLine_setPropEPointInOctaveX_float),
     (''ePointInOctaveY'',
      cv_line_descriptor_KeyLine_getPropEPointInOctaveY_const,
      cv_line_descriptor_KeyLine_setPropEPointInOctaveY_float),
     (''lineLength'',
      cv_line_descriptor_KeyLine_getPropLineLength_const,
      cv_line_descriptor_KeyLine_setPropLineLength_float)]"

definition KeyLine_int_accessors ::
  "(string \<times> (addr \<Rightarrow> 'n memory \<Rightarrow> (c_int Result \<times> 'n memory) option) \<times>
    (addr \<Rightarrow> c_int \<Rightarrow> 'n memory \<Rightarrow> (unit Result \<times> 'n memory) option)) list" where
  "KeyLine_int_accessors =
    [(''class_id'',
      cv_line_descriptor_KeyLine_getPropClass_id_const,
      cv_line_descriptor_KeyLine_setPropClass_id_int),
     (''octave'',
      cv_line_descriptor_KeyLine_getPropOctave_const,
      cv_line_descriptor_KeyLine_setPropOctave_int),
     (''numOfPixels'',
      cv_line_descriptor_KeyLine_getPropNumOfPixels_const,
      cv_line_descriptor_KeyLine_setPropNumOfPixels_int)]"

definition KeyLine_Point2f_accessors ::
  "(string \<times> (addr \<Rightarrow> 'n memory \<Rightarrow> (Point2f Result \<times> 'n memory) option) \<times>
    (addr \<Rightarrow> addr \<Rightarrow> 'n memory \<Rightarrow> (unit Result \<times> 'n memory) option)) list" where
  "KeyLine_Point2f_accessors =
    [(''pt'',
      cv_line_descriptor_KeyLine_getPropPt_const,
      cv_line_descriptor_KeyLine_setPropPt_Point2f)]"

text \<open>
  The fields of the two classes by name, each read as a tagged value, to say which fields
  an accessor leaves alone.
\<close>

datatype field_value = Int_field c_int | Float_field c_float | Point2f_field Point2f

definition Params_fields :: "(string \<times> (Params \<Rightarrow> field_value)) list" where
  "Params_fields =
     [(''numOfOctave_'', \<lambda>obj. Int_field (numOfOctave obj)),
      (''widthOfBand_'', \<lambda>obj. Int_field (widthOfBand obj)),
      (''reductionRatio'', \<lambda>obj. Int_field (reductionRatio obj)),
      (''ksize_'', \<lambda>obj. Int_field (ksize obj))]"

definition KeyLine_fields :: "(string \<times> (KeyLine \<Rightarrow> field_value)) list" where
  "KeyLine_fields =
     [(''angle'', \<lambda>obj. Float_field (angle obj)),
      (''class_id'', \<lambda>obj. Int_field (class_id obj)),
      (''octave'', \<lambda>obj. Int_field (octave obj)),
      (''pt'', \<lambda>obj. Point2f_field (pt obj)),
      (''response'', \<lambda>obj. Float_field (response obj)),
      (''size'', \<lambda>obj. Float_field (size_KeyLine obj)),
      (''startPointX'', \<lambda>obj. Float_field (startPointX obj)),
      (''startPointY'', \<lambda>obj. Float_field (startPointY obj)),
      (''endPointX'', \<lambda>obj. Float_field (endPointX obj)),
      (''endPointY'', \<lambda>obj. Float_field (endPointY obj)),
      (''sPointInOctaveX'', \<lambda>obj. Float_field (sPointInOctaveX obj)),
      (''sPointInOctaveY'', \<lambda>obj. Float_field (sPointInOctaveY obj)),
      (''ePointInOctaveX'', \<lambda>obj. Float_field (ePointInOctaveX obj)),
      (''ePointInOctaveY'', \<lambda>obj. Float_field (ePointInOctaveY obj)),
      (''lineLength'', \<lambda>obj. Float_field (lineLength obj)),
      (''numOfPixels'', \<lambda>obj. Int_field (numOfPixels obj))]"

text \<open>The value of the field named \<open>f\<close> in an object, if the class has such a field.\<close>

definition field_of :: "(string \<times> ('o \<Rightarrow> field_value)) list \<Rightarrow> string \<Rightarrow> 'o \<Rightarrow> field_value option" where
  "field_of fs f obj = map_option (\<lambda>view. view obj) (map_of fs f)"

subsection \<open>The signatures of all entry points\<close>

text \<open>
  What each function is declared to return: \<^verbatim>\<open>void\<close>, \<^verbatim>\<open>Result_void\<close>, or \<^verbatim>\<open>Result<T>\<close> with
  \<^verbatim>\<open>T\<close> as the source writes it.
\<close>

datatype ret_type = Void | Result_void | Result_of string

text \<open>
  The shape of each body. \<open>Guarded_boxed T\<close> ends in \<^verbatim>\<open>return Ok(new T(ret))\<close>, \<open>Guarded_new T\<close>
  starts with \<^verbatim>\<open>T* ret = new T(...)\<close>, \<open>Field_get f\<close> reads and \<open>Field_set f\<close> writes
  \<^verbatim>\<open>instance->f\<close>, and \<open>Delete T\<close> is \<^verbatim>\<open>delete instance\<close> for the parameter \<^verbatim>\<open>T* instance\<close>.
\<close>

datatype body_shape =
    Guarded_call
  | Guarded_value
  | Guarded_boxed string
  | Guarded_new string
  | Field_get string
  | Field_set string
  | Delete string

datatype entry_point =
  Entry_point (entry_name: string) (entry_returns: ret_type) (entry_body: body_shape)

text \<open>The 89 functions of the line\_descriptor file, in the order of the source.\<close>

definition line_descriptor_entry_points :: "entry_point list" where
  "line_descriptor_entry_points =
    [
     Entry_point ''cv_line_descriptor_drawKeylines_const_MatR_const_vector_KeyLine_R_MatR_const_ScalarR_int''
       Result_void Guarded_call,
     Entry_point ''cv_line_descriptor_drawLineMatches_const_MatR_const_vector_KeyLine_R_const_MatR_const_vector_KeyLine_R_const_vector_DMatch_R_MatR_const_ScalarR_const_ScalarR_const_vector_char_R_int''
       Result_void Guarded_call,
     Entry_point ''cv_BinaryDescriptor_delete''
       Void (Delete ''cv::line_descriptor::BinaryDescriptor''),
     Entry_point ''cv_line_descriptor_BinaryDescriptor_BinaryDescriptor_const_ParamsR''
       (Result_of ''cv::line_descriptor::BinaryDescriptor*'') (Guarded_new ''cv::line_descriptor::BinaryDescriptor''),
     Entry_point ''cv_line_descriptor_BinaryDescriptor_createBinaryDescriptor''
       (Result_of ''cv::Ptr<cv::line_descriptor::BinaryDescriptor>*'') (Guarded_boxed ''cv::Ptr<cv::line_descriptor::BinaryDescriptor>''),
     Entry_point ''cv_line_descriptor_BinaryDescriptor_createBinaryDescriptor_Params''
       (Result_of ''cv::Ptr<cv::line_descriptor::BinaryDescriptor>*'') (Guarded_boxed ''cv::Ptr<cv::line_descriptor::BinaryDescriptor>''),
     Entry_point ''cv_line_descriptor_BinaryDescriptor_getNumOfOctaves''
       (Result_of ''int'') Guarded_value,
     Entry_point ''cv_line_descriptor_BinaryDescriptor_setNumOfOctaves_int''
       Result_void Guarded_call,
     Entry_point ''cv_line_descriptor_BinaryDescriptor_getWidthOfBand''
       (Result_of ''int'') Guarded_value,
     Entry_point ''cv_line_descriptor_BinaryDescriptor_setWidthOfBand_int''
       Result_void Guarded_call,
     Entry_point ''cv_line_descriptor_BinaryDescriptor_getReductionRatio''
       (Result_of ''int'') Guarded_value,
     Entry_point ''cv_line_descriptor_BinaryDescriptor_setReductionRatio_int''
       Result_void Guarded_call,
     Entry_point ''cv_line_descriptor_BinaryDescriptor_read_const_FileNodeR''
       Result_void Guarded_call,
     Entry_point ''cv_line_descriptor_BinaryDescriptor_write_const_FileStorageR''
       Result_void Guarded_call,
     Entry_point ''cv_line_descriptor_BinaryDescriptor_detect_const_MatR_vector_KeyLine_R_const_MatR''
       Result_void Guarded_call,
     Entry_point ''cv_line_descriptor_BinaryDescriptor_detect_const_const_vector_Mat_R_vector_vector_KeyLine__R_const_vector_Mat_R''
       Result_void Guarded_call,
     Entry_point ''cv_line_descriptor_BinaryDescriptor_compute_const_const_MatR_vector_KeyLine_R_MatR_bool''
       Result_void Guarded_call,
     Entry_point ''cv_line_descriptor_BinaryDescriptor_compute_const_const_vector_Mat_R_vector_vector_KeyLine__R_vector_Mat_R_bool''
       Result_void Guarded_call,
     Entry_point ''cv_line_descriptor_BinaryDescriptor_descriptorSize_const''
       (Result_of ''int'') Guarded_value,
     Entry_point ''cv_line_descriptor_BinaryDescriptor_descriptorType_const''
       (Result_of ''int'') Guarded_value,
     Entry_point ''cv_line_descriptor_BinaryDescriptor_defaultNorm_const''
       (Result_of ''int'') Guarded_value,
     Entry_point ''cv_line_descriptor_BinaryDescriptor_Params_getPropNumOfOctave__const''
       (Result_of ''int'') (Field_get ''numOfOctave_''),
     Entry_point ''cv_line_descriptor_BinaryDescriptor_Params_setPropNumOfOctave__int''
       Result_void (Field_set ''numOfOctave_''),
     Entry_point ''cv_line_descriptor_BinaryDescriptor_Params_getPropWidthOfBand__const''
       (Result_of ''int'') (Field_get ''widthOfBand_''),
     Entry_point ''cv_line_descriptor_BinaryDescriptor_Params_setPropWidthOfBand__int''
       Result_void (Field_set ''widthOfBand_''),
     Entry_point ''cv_line_descriptor_BinaryDescriptor_Params_getPropReductionRatio_const''
       (Result_of ''int'') (Field_get ''reductionRatio''),
     Entry_point ''cv_line_descriptor_BinaryDescriptor_Params_setPropReductionRatio_int''
       Result_void (Field_set ''reductionRatio''),
     Entry_point ''cv_line_descriptor_BinaryDescriptor_Params_getPropKsize__const''
       (Result_of ''int'') (Field_get ''ksize_''),
     Entry_point ''cv_line_descriptor_BinaryDescriptor_Params_setPropKsize__int''
       Result_void (Field_set ''ksize_''),
     Entry_point ''cv_BinaryDescriptor_Params_delete''
       Void (Delete ''cv::line_descriptor::BinaryDescriptor::Params''),
     Entry_point ''cv_line_descriptor_BinaryDescriptor_Params_Params''
       (Result_of ''cv::line_descriptor::BinaryDescriptor::Params*'') (Guarded_new ''cv::line_descriptor::BinaryDescriptor::Params''),
     Entry_point ''cv_line_descriptor_BinaryDescriptor_Params_read_const_FileNodeR''
       Result_void Guarded_call,
     Entry_point ''cv_line_descriptor_BinaryDescriptor_Params_write_const_FileStorageR''
       Result_void Guarded_call,
     Entry_point ''cv_BinaryDescriptorMatcher_delete''
       Void (Delete ''cv::line_descriptor::BinaryDescriptorMatcher''),
     Entry_point ''cv_line_descriptor_BinaryDescriptorMatcher_match_const_const_MatR_const_MatR_vector_DMatch_R_const_MatR''
       Result_void Guarded_call,
     Entry_point ''cv_line_descriptor_BinaryDescriptorMatcher_match_const_MatR_vector_DMatch_R_const_vector_Mat_R''
       Result_void Guarded_call,
     Entry_point ''cv_line_descriptor_BinaryDescriptorMatcher_knnMatch_const_const_MatR_const_MatR_vector_vector_DMatch__R_int_const_MatR_bool''
       Result_void Guarded_call,
     Entry_point ''cv_line_descriptor_BinaryDescriptorMatcher_knnMatch_const_MatR_vector_vector_DMatch__R_int_const_vector_Mat_R_bool''
       Result_void Guarded_call,
     Entry_point ''cv_line_descriptor_BinaryDescriptorMatcher_radiusMatch_const_const_MatR_const_MatR_vector_vector_DMatch__R_float_const_MatR_bool''
       Result_void Guarded_call,
     Entry_point ''cv_line_descriptor_BinaryDescriptorMatcher_radiusMatch_const_MatR_vector_vector_DMatch__R_float_const_vector_Mat_R_bool''
       Result_void Guarded_call,
     Entry_point ''cv_line_descriptor_BinaryDescriptorMatcher_add_const_vector_Mat_R''
       Result_void Guarded_call,
     Entry_point ''cv_line_descriptor_BinaryDescriptorMatcher_train''
       Result_void Guarded_call,
     Entry_point ''cv_line_descriptor_BinaryDescriptorMatcher_createBinaryDescriptorMatcher''
       (Result_of ''cv::Ptr<cv::line_descriptor::BinaryDescriptorMatcher>*'') (Guarded_boxed ''cv::Ptr<cv::line_descriptor::BinaryDescriptorMatcher>''),
     Entry_point ''cv_line_descriptor_BinaryDescriptorMatcher_clear''
       Result_void Guarded_call,
     Entry_point ''cv_line_descriptor_BinaryDescriptorMatcher_BinaryDescriptorMatcher''
       (Result_of ''cv::line_descriptor::BinaryDescriptorMatcher*'') (Guarded_new ''cv::line_descriptor::BinaryDescriptorMatcher''),
     Entry_point ''cv_DrawLinesMatchesFlags_delete''
       Void (Delete ''cv::line_descriptor::DrawLinesMatchesFlags''),
     Entry_point ''cv_line_descriptor_KeyLine_getPropAngle_const''
       (Result_of ''float'') (Field_get ''angle''),
     Entry_point ''cv_line_descriptor_KeyLine_setPropAngle_float''
       Result_void (Field_set ''angle''),
     Entry_point ''cv_line_descriptor_KeyLine_getPropClass_id_const''
       (Result_of ''int'') (Field_get ''class_id''),
     Entry_point ''cv_line_descriptor_KeyLine_setPropClass_id_int''
       Result_void (Field_set ''class_id''),
     Entry_point ''cv_line_descriptor_KeyLine_getPropOctave_const''
       (Result_of ''int'') (Field_get ''octave''),
     Entry_point ''cv_line_descriptor_KeyLine_setPropOctave_int''
       Result_void (Field_set ''octave''),
     Entry_point ''cv_line_descriptor_KeyLine_getPropPt_const''
       (Result_of ''cv::Point2f'') (Field_get ''pt''),
     Entry_point ''cv_line_descriptor_KeyLine_setPropPt_Point2f''
       Result_void (Field_set ''pt''),
     Entry_point ''cv_line_descriptor_KeyLine_getPropResponse_const''
       (Result_of ''float'') (Field_get ''response''),
     Entry_point ''cv_line_descriptor_KeyLine_setPropResponse_float''
       Result_void (Field_set ''response''),
     Entry_point ''cv_line_descriptor_KeyLine_getPropSize_const''
       (Result_of ''float'') (Field_get ''size''),
     Entry_point ''cv_line_descriptor_KeyLine_setPropSize_float''
       Result_void (Field_set ''size''),
     Entry_point ''cv_line_descriptor_KeyLine_getPropStartPointX_const''
       (Result_of ''float'') (Field_get ''startPointX''),
     Entry_point ''cv_line_descriptor_KeyLine_setPropStartPointX_float''
       Result_void (Field_set ''startPointX''),
     Entry_point ''cv_line_descriptor_KeyLine_getPropStartPointY_const''
       (Result_of ''float'') (Field_get ''startPointY''),
     Entry_point ''cv_line_descriptor_KeyLine_setPropStartPointY_float''
       Result_void (Field_set ''startPointY''),
     Entry_point ''cv_line_descriptor_KeyLine_getPropEndPointX_const''
       (Result_of ''float'') (Field_get ''endPointX''),
     Entry_point ''cv_line_descriptor_KeyLine_setPropEndPointX_float''
       Result_void (Field_set ''endPointX''),
     Entry_point ''cv_line_descriptor_KeyLine_getPropEndPointY_const''
       (Result_of ''float'') (Field_get ''endPointY''),
     Entry_point ''cv_line_descriptor_KeyLine_setPropEndPointY_float''
       Result_void (Field_set ''endPointY''),
     Entry_point ''cv_line_descriptor_KeyLine_getPropSPointInOctaveX_const''
       (Result_of ''float'') (Field_get ''sPointInOctaveX''),
     Entry_point ''cv_line_descriptor_KeyLine_setPropSPointInOctaveX_float''
       Result_void (Field_set ''sPointInOctaveX''),
     Entry_point ''cv_line_descriptor_KeyLine_getPropSPointInOctaveY_const''
       (Result_of ''float'') (Field_get ''sPointInOctaveY''),
     Entry_point ''cv_line_descriptor_KeyLine_setPropSPointInOctaveY_float''
       Result_void (Field_set ''sPointInOctaveY''),
     Entry_point ''cv_line_descriptor_KeyLine_getPropEPointInOctaveX_const''
       (Result_of ''float'') (Field_get ''ePointInOctaveX''),
     Entry_point ''cv_line_descriptor_KeyLine_setPropEPointInOctaveX_float''
       Result_void (Field_set ''ePointInOctaveX''),
     Entry_point ''cv_line_descriptor_KeyLine_getPropEPointInOctaveY_const''
       (Result_of ''float'') (Field_get ''ePointInOctaveY''),
     Entry_point ''cv_line_descriptor_KeyLine_setPropEPointInOctaveY_float''
       Result_void (Field_set ''ePointInOctaveY''),
     Entry_point ''cv_line_descriptor_KeyLine_getPropLineLength_const''
       (Result_of ''float'') (Field_get ''lineLength''),
     Entry_point ''cv_line_descriptor_KeyLine_setPropLineLength_float''
       Result_void (Field_set ''lineLength''),
     Entry_point ''cv_line_descriptor_KeyLine_getPropNumOfPixels_const''
       (Result_of ''int'') (Field_get ''numOfPixels''),
     Entry_point ''cv_line_descriptor_KeyLine_setPropNumOfPixels_int''
       Result_void (Field_set ''numOfPixels''),
     Entry_point ''cv_KeyLine_delete''
       Void (Delete ''cv::line_descriptor::KeyLine''),
     Entry_point ''cv_line_descriptor_KeyLine_getStartPoint_const''
       (Result_of ''cv::Point2f'') Guarded_value,
     Entry_point ''cv_line_descriptor_KeyLine_getEndPoint_const''
       (Result_of ''cv::Point2f'') Guarded_value,
     Entry_point ''cv_line_descriptor_KeyLine_getStartPointInOctave_const''
       (Result_of ''cv::Point2f'') Guarded_value,
     Entry_point ''cv_line_descriptor_KeyLine_getEndPointInOctave_const''
       (Result_of ''cv::Point2f'') Guarded_value,
     Entry_point ''cv_line_descriptor_KeyLine_KeyLine''
       (Result_of ''cv::line_descriptor::KeyLine*'') (Guarded_new ''cv::line_descriptor::KeyLine''),
     Entry_point ''cv_LSDDetector_delete''
       Void (Delete ''cv::line_descriptor::LSDDetector''),
     Entry_point ''cv_line_descriptor_LSDDetector_LSDDetector''
       (Result_of ''cv::line_descriptor::LSDDetector*'') (Guarded_new ''cv::line_descriptor::LSDDetector''),
     Entry_point ''cv_line_descriptor_LSDDetector_createLSDDetector''
       (Result_of ''cv::Ptr<cv::line_descriptor::LSDDetector>*'') (Guarded_boxed ''cv::Ptr<cv::line_descriptor::LSDDetector>''),
     Entry_point ''cv_line_descriptor_LSDDetector_detect_const_MatR_vector_KeyLine_R_int_int_const_MatR''
       Result_void Guarded_call,
     Entry_point ''cv_line_descriptor_LSDDetector_detect_const_const_vector_Mat_R_vector_vector_KeyLine__R_int_int_const_vector_Mat_R''
       Result_void Guarded_call
    ]"

text \<open>The 130 functions of ximgproc.cpp, in the order of the source.\<close>

definition ximgproc_entry_points :: "entry_point list" where
  "ximgproc_entry_points =
    [
     Entry_point ''cv_ximgproc_FastHoughTransform_const__InputArrayR_const__OutputArrayR_int_int_int_int''
       Result_void Guarded_call,
     Entry_point ''cv_ximgproc_GradientDericheX_const__InputArrayR_const__OutputArrayR_double_double''
       Result_void Guarded_call,
     Entry_point ''cv_ximgproc_GradientDericheY_const__InputArrayR_const__OutputArrayR_double_double''
       Result_void Guarded_call,
     Entry_point ''cv_ximgproc_GradientPaillouX_const__InputArrayR_const__OutputArrayR_double_double''
       Result_void Guarded_call,
     Entry_point ''cv_ximgproc_GradientPaillouY_const__InputArrayR_const__OutputArrayR_double_double''
       Result_void Guarded_call,
     Entry_point ''cv_ximgproc_HoughPoint2Line_const_PointR_const__InputArrayR_int_int_int''
       (Result_of ''cv::Vec4i'') Guarded_value,
     Entry_point ''cv_ximgproc_amFilter_const__InputArrayR_const__InputArrayR_const__OutputArrayR_double_double_bool''
       Result_void Guarded_call,
     Entry_point ''cv_ximgproc_bilateralTextureFilter_const__InputArrayR_const__OutputArrayR_int_int_double_double''
       Result_void Guarded_call,
     Entry_point ''cv_ximgproc_computeBadPixelPercent_const__InputArrayR_const__InputArrayR_Rect_int''
       (Result_of ''double'') Guarded_value,
     Entry_point ''cv_ximgproc_computeMSE_const__InputArrayR_const__InputArrayR_Rect''
       (Result_of ''double'') Guarded_value,
     Entry_point ''cv_ximgproc_covarianceEstimation_const__InputArrayR_const__OutputArrayR_int_int''
       Result_void Guarded_call,
     Entry_point ''cv_ximgproc_createAMFilter_double_double_bool''
       (Result_of ''cv::Ptr<cv::ximgproc::AdaptiveManifoldFilter>*'') (Guarded_boxed ''cv::Ptr<cv::ximgproc::AdaptiveManifoldFilter>''),
     Entry_point ''cv_ximgproc_createDTFilter_const__InputArrayR_double_double_int_int''
       (Result_of ''cv::Ptr<cv::ximgproc::DTFilter>*'') (Guarded_boxed ''cv::Ptr<cv::ximgproc::DTFilter>''),
     Entry_point ''cv_ximgproc_createDisparityWLSFilterGeneric_bool''
       (Result_of ''cv::Ptr<cv::ximgproc::DisparityWLSFilter>*'') (Guarded_boxed ''cv::Ptr<cv::ximgproc::DisparityWLSFilter>''),
     Entry_point ''cv_ximgproc_createDisparityWLSFilter_Ptr_StereoMatcher_''
       (Result_of ''cv::Ptr<cv::ximgproc::DisparityWLSFilter>*'') (Guarded_boxed ''cv::Ptr<cv::ximgproc::DisparityWLSFilter>''),
     Entry_point ''cv_ximgproc_createEdgeAwareInterpolator''
       (Result_of ''cv::Ptr<cv::ximgproc::EdgeAwareInterpolator>*'') (Guarded_boxed ''cv::Ptr<cv::ximgproc::EdgeAwareInterpolator>''),
     Entry_point ''cv_ximgproc_createFastGlobalSmootherFilter_const__InputArrayR_double_double_double_int''
       (Result_of ''cv::Ptr<cv::ximgproc::FastGlobalSmootherFilter>*'') (Guarded_boxed ''cv::Ptr<cv::ximgproc::FastGlobalSmootherFilter>''),
     Entry_point ''cv_ximgproc_createFastLineDetector_int_float_double_double_int_bool''
       (Result_of ''cv::Ptr<cv::ximgproc::FastLineDetector>*'') (Guarded_boxed ''cv::Ptr<cv::ximgproc::FastLineDetector>''),
     Entry_point ''cv_ximgproc_createGuidedFilter_const__InputArrayR_int_double''
       (Result_of ''cv::Ptr<cv::ximgproc::GuidedFilter>*'') (Guarded_boxed ''cv::Ptr<cv::ximgproc::GuidedFilter>''),
     Entry_point ''cv_ximgproc_createRFFeatureGetter''
       (Result_of ''cv::Ptr<cv::ximgproc::RFFeatureGetter>*'') (Guarded_boxed ''cv::Ptr<cv::ximgproc::RFFeatureGetter>''),
     Entry_point ''cv_ximgproc_createRightMatcher_Ptr_StereoMatcher_''
       (Result_of ''cv::Ptr<cv::StereoMatcher>*'') (Guarded_boxed ''cv::Ptr<cv::StereoMatcher>''),
     Entry_point ''cv_ximgproc_createStructuredEdgeDetection_const_StringR_Ptr_RFFeatureGetter_''
       (Result_of ''cv::Ptr<cv::ximgproc::StructuredEdgeDetection>*'') (Guarded_boxed ''cv::Ptr<cv::ximgproc::StructuredEdgeDetection>''),
     Entry_point ''cv_ximgproc_createSuperpixelLSC_const__InputArrayR_int_float''
       (Result_of ''cv::Ptr<cv::ximgproc::SuperpixelLSC>*'') (Guarded_boxed ''cv::Ptr<cv::ximgproc::SuperpixelLSC>''),
     Entry_point ''cv_ximgproc_createSuperpixelSEEDS_int_int_int_int_int_int_int_bool''
       (Result_of ''cv::Ptr<cv::ximgproc::SuperpixelSEEDS>*'') (Guarded_boxed ''cv::Ptr<cv::ximgproc::SuperpixelSEEDS>''),
     Entry_point ''cv_ximgproc_createSuperpixelSLIC_const__InputArrayR_int_int_float''
       (Result_of ''cv::Ptr<cv::ximgproc::SuperpixelSLIC>*'') (Guarded_boxed ''cv::Ptr<cv::ximgproc::SuperpixelSLIC>''),
     Entry_point ''cv_ximgproc_dtFilter_const__InputArrayR_const__InputArrayR_const__OutputArrayR_double_double_int_int''
       Result_void Guarded_call,
     Entry_point ''cv_ximgproc_fastGlobalSmootherFilter_const__InputArrayR_const__InputArrayR_const__OutputArrayR_double_double_double_int''
       Result_void Guarded_call,
     Entry_point ''cv_ximgproc_getDisparityVis_const__InputArrayR_const__OutputArrayR_double''
       Result_void Guarded_call,
     Entry_point ''cv_ximgproc_guidedFilter_const__InputArrayR_const__InputArrayR_const__OutputArrayR_int_double_int''
       Result_void Guarded_call,
     Entry_point ''cv_ximgproc_jointBilateralFilter_const__InputArrayR_const__InputArrayR_const__OutputArrayR_int_double_double_int''
       Result_void Guarded_call,
     Entry_point ''cv_ximgproc_l0Smooth_const__InputArrayR_const__OutputArrayR_double_double''
       Result_void Guarded_call,
     Entry_point ''cv_ximgproc_niBlackThreshold_const__InputArrayR_const__OutputArrayR_double_int_int_double''
       Result_void Guarded_call,
     Entry_point ''cv_ximgproc_readGT_String_const__OutputArrayR''
       (Result_of ''int'') Guarded_value,
     Entry_point ''cv_ximgproc_rollingGuidanceFilter_const__InputArrayR_const__OutputArrayR_int_double_double_int_int''
       Result_void Guarded_call,
     Entry_point ''cv_ximgproc_segmentation_createGraphSegmentation_double_float_int''
       (Result_of ''cv::Ptr<cv::ximgproc::segmentation::GraphSegmentation>*'') (Guarded_boxed ''cv::Ptr<cv::ximgproc::segmentation::GraphSegmentation>''),
     Entry_point ''cv_ximgproc_segmentation_createSelectiveSearchSegmentation''
       (Result_of ''cv::Ptr<cv::ximgproc::segmentation::SelectiveSearchSegmentation>*'') (Guarded_boxed ''cv::Ptr<cv::ximgproc::segmentation::SelectiveSearchSegmentation>''),
     Entry_point ''cv_ximgproc_segmentation_createSelectiveSearchSegmentationStrategyColor''
       (Result_of ''cv::Ptr<cv::ximgproc::segmentation::SelectiveSearchSegmentationStrategyColor>*'') (Guarded_boxed ''cv::Ptr<cv::ximgproc::segmentation::SelectiveSearchSegmentationStrategyColor>''),
     Entry_point ''cv_ximgproc_segmentation_createSelectiveSearchSegmentationStrategyFill''
       (Result_of ''cv::Ptr<cv::ximgproc::segmentation::SelectiveSearchSegmentationStrategyFill>*'') (Guarded_boxed ''cv::Ptr<cv::ximgproc::segmentation::SelectiveSearchSegmentationStrategyFill>''),
     Entry_point ''cv_ximgproc_segmentation_createSelectiveSearchSegmentationStrategyMultiple''
       (Result_of ''cv::Ptr<cv::ximgproc::segmentation::SelectiveSearchSegmentationStrategyMultiple>*'') (Guarded_boxed ''cv::Ptr<cv::ximgproc::segmentation::SelectiveSearchSegmentationStrategyMultiple>''),
     Entry_point ''cv_ximgproc_segmentation_createSelectiveSearchSegmentationStrategyMultiple_Ptr_SelectiveSearchSegmentationStrategy_''
       (Result_of ''cv::Ptr<cv::ximgproc::segmentation::SelectiveSearchSegmentationStrategyMultiple>*'') (Guarded_boxed ''cv::Ptr<cv::ximgproc::segmentation::SelectiveSearchSegmentationStrategyMultiple>''),
     Entry_point ''cv_ximgproc_segmentation_createSelectiveSearchSegmentationStrategyMultiple_Ptr_SelectiveSearchSegmentationStrategy__Ptr_SelectiveSearchSegmentationStrategy_''
       (Result_of ''cv::Ptr<cv::ximgproc::segmentation::SelectiveSearchSegmentationStrategyMultiple>*'') (Guarded_boxed ''cv::Ptr<cv::ximgproc::segmentation::SelectiveSearchSegmentationStrategyMultiple>''),
     Entry_point ''cv_ximgproc_segmentation_createSelectiveSearchSegmentationStrategyMultiple_Ptr_SelectiveSearchSegmentationStrategy__Ptr_SelectiveSearchSegmentationStrategy__Ptr_SelectiveSearchSegmentationStrategy_''
       (Result_of ''cv::Ptr<cv::ximgproc::segmentation::SelectiveSearchSegmentationStrategyMultiple>*'') (Guarded_boxed ''cv::Ptr<cv::ximgproc::segmentation::SelectiveSearchSegmentationStrategyMultiple>''),
     Entry_point ''cv_ximgproc_segmentation_createSelectiveSearchSegmentationStrategyMultiple_Ptr_SelectiveSearchSegmentationStrategy__Ptr_SelectiveSearchSegmentationStrategy__Ptr_SelectiveSearchSegmentationStrategy__Ptr_SelectiveSearchSegmentationStrategy_''
       (Result_of ''cv::Ptr<cv::ximgproc::segmentation::SelectiveSearchSegmentationStrategyMultiple>*'') (Guarded_boxed ''cv::Ptr<cv::ximgproc::segmentation::SelectiveSearchSegmentationStrategyMultiple>''),
     Entry_point ''cv_ximgproc_segmentation_createSelectiveSearchSegmentationStrategySize''
       (Result_of ''cv::Ptr<cv::ximgproc::segmentation::SelectiveSearchSegmentationStrategySize>*'') (Guarded_boxed ''cv::Ptr<cv::ximgproc::segmentation::SelectiveSearchSegmentationStrategySize>''),
     Entry_point ''cv_ximgproc_segmentation_createSelectiveSearchSegmentationStrategyTexture''
       (Result_of ''cv::Ptr<cv::ximgproc::segmentation::SelectiveSearchSegmentationStrategyTexture>*'') (Guarded_boxed ''cv::Ptr<cv::ximgproc::segmentation::SelectiveSearchSegmentationStrategyTexture>''),
     Entry_point ''cv_ximgproc_thinning_const__InputArrayR_const__OutputArrayR_int''
       Result_void Guarded_call,
     Entry_point ''cv_ximgproc_weightedMedianFilter_const__InputArrayR_const__InputArrayR_const__OutputArrayR_int_double_WMFWeightType_Mat''
       Result_void Guarded_call,
     Entry_point ''cv_ximgproc_AdaptiveManifoldFilter_filter_const__InputArrayR_const__OutputArrayR_const__InputArrayR''
       Result_void Guarded_call,
     Entry_point ''cv_ximgproc_AdaptiveManifoldFilter_collectGarbage''
       Result_void Guarded_call,
     Entry_point ''cv_ximgproc_AdaptiveManifoldFilter_create''
       (Result_of ''cv::Ptr<cv::ximgproc::AdaptiveManifoldFilter>*'') (Guarded_boxed ''cv::Ptr<cv::ximgproc::AdaptiveManifoldFilter>''),
     Entry_point ''cv_ximgproc_AdaptiveManifoldFilter_getSigmaS_const''
       (Result_of ''double'') Guarded_value,
     Entry_point ''cv_ximgproc_AdaptiveManifoldFilter_setSigmaS_double''
       Result_void Guarded_call,
     Entry_point ''cv_ximgproc_AdaptiveManifoldFilter_getSigmaR_const''
       (Result_of ''double'') Guarded_value,
     Entry_point ''cv_ximgproc_AdaptiveManifoldFilter_setSigmaR_double''
       Result_void Guarded_call,
     Entry_point ''cv_ximgproc_AdaptiveManifoldFilter_getTreeHeight_const''
       (Result_of ''int'') Guarded_value,
     Entry_point ''cv_ximgproc_AdaptiveManifoldFilter_setTreeHeight_int''
       Result_void Guarded_call,
     Entry_point ''cv_ximgproc_AdaptiveManifoldFilter_getPCAIterations_const''
       (Result_of ''int'') Guarded_value,
     Entry_point ''cv_ximgproc_AdaptiveManifoldFilter_setPCAIterations_int''
       Result_void Guarded_call,
     Entry_point ''cv_ximgproc_AdaptiveManifoldFilter_getAdjustOutliers_const''
       (Result_of ''bool'') Guarded_value,
     Entry_point ''cv_ximgproc_AdaptiveManifoldFilter_setAdjustOutliers_bool''
       Result_void Guarded_call,
     Entry_point ''cv_ximgproc_AdaptiveManifoldFilter_getUseRNG_const''
       (Result_of ''bool'') Guarded_value,
     Entry_point ''cv_ximgproc_AdaptiveManifoldFilter_setUseRNG_bool''
       Result_void Guarded_call,
     Entry_point ''cv_ximgproc_DTFilter_filter_const__InputArrayR_const__OutputArrayR_int''
       Result_void Guarded_call,
     Entry_point ''cv_ximgproc_DisparityFilter_filter_const__InputArrayR_const__InputArrayR_const__OutputArrayR_const__InputArrayR_Rect_const__InputArrayR''
       Result_void Guarded_call,
     Entry_point ''cv_ximgproc_DisparityWLSFilter_getLambda''
       (Result_of ''double'') Guarded_value,
     Entry_point ''cv_ximgproc_DisparityWLSFilter_setLambda_double''
       Result_void Guarded_call,
     Entry_point ''cv_ximgproc_DisparityWLSFilter_getSigmaColor''
       (Result_of ''double'') Guarded_value,
     Entry_point ''cv_ximgproc_DisparityWLSFilter_setSigmaColor_double''
       Result_void Guarded_call,
     Entry_point ''cv_ximgproc_DisparityWLSFilter_getLRCthresh''
       (Result_of ''int'') Guarded_value,
     Entry_point ''cv_ximgproc_DisparityWLSFilter_setLRCthresh_int''
       Result_void Guarded_call,
     Entry_point ''cv_ximgproc_DisparityWLSFilter_getDepthDiscontinuityRadius''
       (Result_of ''int'') Guarded_value,
     Entry_point ''cv_ximgproc_DisparityWLSFilter_setDepthDiscontinuityRadius_int''
       Result_void Guarded_call,
     Entry_point ''cv_ximgproc_DisparityWLSFilter_getConfidenceMap''
       (Result_of ''cv::Mat*'') (Guarded_boxed ''cv::Mat''),
     Entry_point ''cv_ximgproc_DisparityWLSFilter_getROI''
       (Result_of ''cv::Rect'') Guarded_value,
     Entry_point ''cv_ximgproc_EdgeAwareInterpolator_setK_int''
       Result_void Guarded_call,
     Entry_point ''cv_ximgproc_EdgeAwareInterpolator_getK''
       (Result_of ''int'') Guarded_value,
     Entry_point ''cv_ximgproc_EdgeAwareInterpolator_setSigma_float''
       Result_void Guarded_call,
     Entry_point ''cv_ximgproc_EdgeAwareInterpolator_getSigma''
       (Result_of ''float'') Guarded_value,
     Entry_point ''cv_ximgproc_EdgeAwareInterpolator_setLambda_float''
       Result_void Guarded_call,
     Entry_point ''cv_ximgproc_EdgeAwareInterpolator_getLambda''
       (Result_of ''float'') Guarded_value,
     Entry_point ''cv_ximgproc_EdgeAwareInterpolator_setUsePostProcessing_bool''
       Result_void Guarded_call,
     Entry_point ''cv_ximgproc_EdgeAwareInterpolator_getUsePostProcessing''
       (Result_of ''bool'') Guarded_value,
     Entry_point ''cv_ximgproc_EdgeAwareInterpolator_setFGSLambda_float''
       Result_void Guarded_call,
     Entry_point ''cv_ximgproc_EdgeAwareInterpolator_getFGSLambda''
       (Result_of ''float'') Guarded_value,
     Entry_point ''cv_ximgproc_EdgeAwareInterpolator_setFGSSigma_float''
       Result_void Guarded_call,
     Entry_point ''cv_ximgproc_EdgeAwareInterpolator_getFGSSigma''
       (Result_of ''float'') Guarded_value,
     Entry_point ''cv_ximgproc_FastGlobalSmootherFilter_filter_const__InputArrayR_const__OutputArrayR''
       Result_void Guarded_call,
     Entry_point ''cv_ximgproc_FastLineDetector_detect_const__InputArrayR_const__OutputArrayR''
       Result_void Guarded_call,
     Entry_point ''cv_ximgproc_FastLineDetector_drawSegments_const__InputOutputArrayR_const__InputArrayR_bool''
       Result_void Guarded_call,
     Entry_point ''cv_ximgproc_GuidedFilter_filter_const__InputArrayR_const__OutputArrayR_int''
       Result_void Guarded_call,
     Entry_point ''cv_ximgproc_RFFeatureGetter_getFeatures_const_const_MatR_MatR_int_int_int_int_int''
       Result_void Guarded_call,
     Entry_point ''cv_ximgproc_SparseMatchInterpolator_interpolate_const__InputArrayR_const__InputArrayR_const__InputArrayR_const__InputArrayR_const__OutputArrayR''
       Result_void Guarded_call,
     Entry_point ''cv_ximgproc_StructuredEdgeDetection_detectEdges_const_const_MatR_MatR''
       Result_void Guarded_call,
     Entry_point ''cv_ximgproc_SuperpixelLSC_getNumberOfSuperpixels_const''
       (Result_of ''int'') Guarded_value,
     Entry_point ''cv_ximgproc_SuperpixelLSC_iterate_int''
       Result_void Guarded_call,
     Entry_point ''cv_ximgproc_SuperpixelLSC_getLabels_const_const__OutputArrayR''
       Result_void Guarded_call,
     Entry_point ''cv_ximgproc_SuperpixelLSC_getLabelContourMask_const_const__OutputArrayR_bool''
       Result_void Guarded_call,
     Entry_point ''cv_ximgproc_SuperpixelLSC_enforceLabelConnectivity_int''
       Result_void Guarded_call,
     Entry_point ''cv_ximgproc_SuperpixelSEEDS_getNumberOfSuperpixels''
       (Result_of ''int'') Guarded_value,
     Entry_point ''cv_ximgproc_SuperpixelSEEDS_iterate_const__InputArrayR_int''
       Result_void Guarded_call,
     Entry_point ''cv_ximgproc_SuperpixelSEEDS_getLabels_const__OutputArrayR''
       Result_void Guarded_call,
     Entry_point ''cv_ximgproc_SuperpixelSEEDS_getLabelContourMask_const__OutputArrayR_bool''
       Result_void Guarded_call,
     Entry_point ''cv_ximgproc_SuperpixelSLIC_getNumberOfSuperpixels_const''
       (Result_of ''int'') Guarded_value,
     Entry_point ''cv_ximgproc_SuperpixelSLIC_iterate_int''
       Result_void Guarded_call,
     Entry_point ''cv_ximgproc_SuperpixelSLIC_getLabels_const_const__OutputArrayR''
       Result_void Guarded_call,
     Entry_point ''cv_ximgproc_SuperpixelSLIC_getLabelContourMask_const_const__OutputArrayR_bool''
       Result_void Guarded_call,
     Entry_point ''cv_ximgproc_SuperpixelSLIC_enforceLabelConnectivity_int''
       Result_void Guarded_call,
     Entry_point ''cv_ximgproc_segmentation_GraphSegmentation_processImage_const__InputArrayR_const__OutputArrayR''
       Result_void Guarded_call,
     Entry_point ''cv_ximgproc_segmentation_GraphSegmentation_setSigma_double''
       Result_void Guarded_call,
     Entry_point ''cv_ximgproc_segmentation_GraphSegmentation_getSigma''
       (Result_of ''double'') Guarded_value,
     Entry_point ''cv_ximgproc_segmentation_GraphSegmentation_setK_float''
       Result_void Guarded_call,
     Entry_point ''cv_ximgproc_segmentation_GraphSegmentation_getK''
       (Result_of ''float'') Guarded_value,
     Entry_point ''cv_ximgproc_segmentation_GraphSegmentation_setMinSize_int''
       Result_void Guarded_call,
     Entry_point ''cv_ximgproc_segmentation_GraphSegmentation_getMinSize''
       (Result_of ''int'') Guarded_value,
     Entry_point ''cv_ximgproc_segmentation_SelectiveSearchSegmentation_setBaseImage_const__InputArrayR''
       Result_void Guarded_call,
     Entry_point ''cv_ximgproc_segmentation_SelectiveSearchSegmentation_switchToSingleStrategy_int_float''
       Result_void Guarded_call,
     Entry_point ''cv_ximgproc_segmentation_SelectiveSearchSegmentation_switchToSelectiveSearchFast_int_int_float''
       Result_void Guarded_call,
     Entry_point ''cv_ximgproc_segmentation_SelectiveSearchSegmentation_switchToSelectiveSearchQuality_int_int_float''
       Result_void Guarded_call,
     Entry_point ''cv_ximgproc_segmentation_SelectiveSearchSegmentation_addImage_const__InputArrayR''
       Result_void Guarded_call,
     Entry_point ''cv_ximgproc_segmentation_SelectiveSearchSegmentation_clearImages''
       Result_void Guarded_call,
     Entry_point ''cv_ximgproc_segmentation_SelectiveSearchSegmentation_addGraphSegmentation_Ptr_GraphSegmentation_''
       Result_void Guarded_call,
     Entry_point ''cv_ximgproc_segmentation_SelectiveSearchSegmentation_clearGraphSegmentations''
       Result_void Guarded_call,
     Entry_point ''cv_ximgproc_segmentation_SelectiveSearchSegmentation_addStrategy_Ptr_SelectiveSearchSegmentationStrategy_''
       Result_void Guarded_call,
     Entry_point ''cv_ximgproc_segmentation_SelectiveSearchSegmentation_clearStrategies''
       Result_void Guarded_call,
     Entry_point ''cv_ximgproc_segmentation_SelectiveSearchSegmentation_process_vector_Rect_R''
       Result_void Guarded_call,
     Entry_point ''cv_ximgproc_segmentation_SelectiveSearchSegmentationStrategy_setImage_const__InputArrayR_const__InputArrayR_const__InputArrayR_int''
       Result_void Guarded_call,
     Entry_point ''cv_ximgproc_segmentation_SelectiveSearchSegmentationStrategy_get_int_int''
       (Result_of ''float'') Guarded_value,
     Entry_point ''cv_ximgproc_segmentation_SelectiveSearchSegmentationStrategy_merge_int_int''
       Result_void Guarded_call,
     Entry_point ''cv_ximgproc_segmentation_SelectiveSearchSegmentationStrategyMultiple_addStrategy_Ptr_SelectiveSearchSegmentationStrategy__float''
       Result_void Guarded_call,
     Entry_point ''cv_ximgproc_segmentation_SelectiveSearchSegmentationStrategyMultiple_clearStrategies''
       Result_void Guarded_call
    ]"

definition entry_points :: "entry_point list" where
  "entry_points = line_descriptor_entry_points @ ximgproc_entry_points"

text \<open>An entry point hands an envelope to its caller unless it is declared \<^verbatim>\<open>void\<close>.\<close>

fun is_envelope :: "ret_type \<Rightarrow> bool" where
  "is_envelope Void = False"
| "is_envelope Result_void = True"
| "is_envelope (Result_of T) = True"

fun is_destructor :: "entry_point \<Rightarrow> bool" where
  "is_destructor (Entry_point n r (Delete T)) = True"
| "is_destructor (Entry_point n r b) = False"








section \<open>Properties of the boundary\<close>

subsection \<open>Unfolding the blocks\<close>

lemmas block_defs = yield_def seq_def OCVRS_CATCH_def live_def new_object_def

lemmas shape_defs = guarded_call_def guarded_value_def guarded_boxed_def guarded_new_def

lemmas at_defs = Params_at_def KeyLine_at_def Point2f_at_def assign_def

lemmas accessor_defs =
  cv_line_descriptor_BinaryDescriptor_Params_getPropNumOfOctave__const_def
  cv_line_descriptor_BinaryDescriptor_Params_setPropNumOfOctave__int_def
  cv_line_descriptor_BinaryDescriptor_Params_getPropWidthOfBand__const_def
  cv_line_descriptor_BinaryDescriptor_Params_setPropWidthOfBand__int_def
  cv_line_descriptor_BinaryDescriptor_Params_getPropReductionRatio_const_def
  cv_line_descriptor_BinaryDescriptor_Params_setPropReductionRatio_int_def
  cv_line_descriptor_BinaryDescriptor_Params_getPropKsize__const_def
  cv_line_descriptor_BinaryDescriptor_Params_setPropKsize__int_def
  cv_line_descriptor_KeyLine_getPropAngle_const_def
  cv_line_descriptor_KeyLine_setPropAngle_float_def
  cv_line_descriptor_KeyLine_getPropClass_id_const_def
  cv_line_descriptor_KeyLine_setPropClass_id_int_def
  cv_line_descriptor_KeyLine_getPropOctave_const_def
  cv_line_descriptor_KeyLine_setPropOctave_int_def
  cv_line_descriptor_KeyLine_getPropPt_const_def
  cv_line_descriptor_KeyLine_setPropPt_Point2f_def
  cv_line_descriptor_KeyLine_getPropResponse_const_def
  cv_line_descriptor_KeyLine_setPropResponse_float_def
  cv_line_descriptor_KeyLine_getPropSize_const_def
  cv_line_descriptor_KeyLine_setPropSize_float_def
  cv_line_descriptor_KeyLine_getPropStartPointX_const_def
  cv_line_descriptor_KeyLine_setPropStartPointX_float_def
  cv_line_descriptor_KeyLine_getPropStartPointY_const_def
  cv_line_descriptor_KeyLine_setPropStartPointY_float_def
  cv_line_descriptor_KeyLine_getPropEndPointX_const_def
  cv_line_descriptor_KeyLine_setPropEndPointX_float_def
  cv_line_descriptor_KeyLine_getPropEndPointY_const_def
  cv_line_descriptor_KeyLine_setPropEndPointY_float_def
  cv_line_descriptor_KeyLine_getPropSPointInOctaveX_const_def
  cv_line_descriptor_KeyLine_setPropSPointInOctaveX_float_def
  cv_line_descriptor_KeyLine_getPropSPointInOctaveY_const_def
  cv_line_descriptor_KeyLine_setPropSPointInOctaveY_float_def
  cv_line_descriptor_KeyLine_getPropEPointInOctaveX_const_def
  cv_line_descriptor_KeyLine_setPropEPointInOctaveX_float_def
  cv_line_descriptor_KeyLine_getPropEPointInOctaveY_const_def
  cv_line_descriptor_KeyLine_setPropEPointInOctaveY_float_def
  cv_line_descriptor_KeyLine_getPropLineLength_const_def
  cv_line_descriptor_KeyLine_setPropLineLength_float_def
  cv_line_descriptor_KeyLine_getPropNumOfPixels_const_def
  cv_line_descriptor_KeyLine_setPropNumOfPixels_int_def

lemmas table_defs = entry_points_def line_descriptor_entry_points_def ximgproc_entry_points_def

text \<open>Two objects agree on a field as soon as they agree on the selector behind its name.\<close>

lemma field_of_Params_cong:
  assumes "f = ''numOfOctave_'' \<Longrightarrow> numOfOctave a = numOfOctave b" and
    "f = ''widthOfBand_'' \<Longrightarrow> widthOfBand a = widthOfBand b" and
    "f = ''reductionRatio'' \<Longrightarrow> reductionRatio a = reductionRatio b" and
    "f = ''ksize_'' \<Longrightarrow> ksize a = ksize b"
  shows "field_of Params_fields f a = field_of Params_fields f b"
  using assms by (simp add: field_of_def Params_fields_def)

lemma field_of_KeyLine_cong:
  assumes "f = ''angle'' \<Longrightarrow> angle a = angle b" and
    "f = ''class_id'' \<Longrightarrow> class_id a = class_id b" and
    "f = ''octave'' \<Longrightarrow> octave a = octave b" and
    "f = ''pt'' \<Longrightarrow> pt a = pt b" and
    "f = ''response'' \<Longrightarrow> response a = response b" and
    "f = ''size'' \<Longrightarrow> size_KeyLine a = size_KeyLine b" and
    "f = ''startPointX'' \<Longrightarrow> startPointX a = startPointX b" and
    "f = ''startPointY'' \<Longrightarrow> startPointY a = startPointY b" and
    "f = ''endPointX'' \<Longrightarrow> endPointX a = endPointX b" and
    "f = ''endPointY'' \<Longrightarrow> endPointY a = endPointY b" and
    "f = ''sPointInOctaveX'' \<Longrightarrow> sPointInOctaveX a = sPointInOctaveX b" and
    "f = ''sPointInOctaveY'' \<Longrightarrow> sPointInOctaveY a = sPointInOctaveY b" and
    "f = ''ePointInOctaveX'' \<Longrightarrow> ePointInOctaveX a = ePointInOctaveX b" and
    "f = ''ePointInOctaveY'' \<Longrightarrow> ePointInOctaveY a = ePointInOctaveY b" and
    "f = ''lineLength'' \<Longrightarrow> lineLength a = lineLength b" and
    "f = ''numOfPixels'' \<Longrightarrow> numOfPixels a = numOfPixels b"
  shows "field_of KeyLine_fields f a = field_of KeyLine_fields f b"
  using assms by (simp add: field_of_def KeyLine_fields_def)

subsection \<open>The accessors, list by list\<close>

lemma Params_int_accessors_get:
  assumes "(f, g, s) \<in> set Params_int_accessors" and "objs m h = Some (Params_object obj)"
  shows "\<exists>v. g h m = Some (Ok v, m) \<and> field_of Params_fields f obj = Some (Int_field v)"
  using assms unfolding Params_int_accessors_def
  apply (simp only: list.set insert_iff empty_iff prod.inject simp_thms)
  apply (elim disjE conjE)
  apply (simp_all add: accessor_defs block_defs at_defs field_of_def Params_fields_def)
  done

lemma Params_int_accessors_frame:
  assumes "(f, g, s) \<in> set Params_int_accessors" and "objs m h = Some (Params_object obj)"
  shows "\<exists>m'. s h val m = Some (Ok (), m') \<and> brk m' = brk m \<and>
           (\<forall>a. a \<noteq> h \<longrightarrow> objs m' a = objs m a) \<and>
           (\<exists>obj'. objs m' h = Some (Params_object obj') \<and>
              (\<forall>f'. f' \<noteq> f \<longrightarrow> field_of Params_fields f' obj' = field_of Params_fields f' obj))"
  using assms unfolding Params_int_accessors_def
  apply (simp only: list.set insert_iff empty_iff prod.inject simp_thms)
  apply (elim disjE conjE)
  apply (simp_all add: accessor_defs block_defs at_defs)
  apply (intro allI impI field_of_Params_cong; simp)+
  done

lemma Params_int_accessors_roundtrip:
  assumes "(f, g, s) \<in> set Params_int_accessors" and "objs m h = Some (Params_object obj)"
  shows "\<exists>m'. s h val m = Some (Ok (), m') \<and> g h m' = Some (Ok val, m')"
  using assms unfolding Params_int_accessors_def
  apply (simp only: list.set insert_iff empty_iff prod.inject simp_thms)
  apply (elim disjE conjE)
  apply (simp_all add: accessor_defs block_defs at_defs)
  done

lemma KeyLine_float_accessors_get:
  assumes "(f, g, s) \<in> set KeyLine_float_accessors" and "objs m h = Some (KeyLine_object obj)"
  shows "\<exists>v. g h m = Some (Ok v, m) \<and> field_of KeyLine_fields f obj = Some (Float_field v)"
  using assms unfolding KeyLine_float_accessors_def
  apply (simp only: list.set insert_iff empty_iff prod.inject simp_thms)
  apply (elim disjE conjE)
  apply (simp_all add: accessor_defs block_defs at_defs field_of_def KeyLine_fields_def)
  done

lemma KeyLine_float_accessors_frame:
  assumes "(f, g, s) \<in> set KeyLine_float_accessors" and "objs m h = Some (KeyLine_object obj)"
  shows "\<exists>m'. s h val m = Some (Ok (), m') \<and> brk m' = brk m \<and>
           (\<forall>a. a \<noteq> h \<longrightarrow> objs m' a = objs m a) \<and>
           (\<exists>obj'. objs m' h = Some (KeyLine_object obj') \<and>
              (\<forall>f'. f' \<noteq> f \<longrightarrow> field_of KeyLine_fields f' obj' = field_of KeyLine_fields f' obj))"
  using assms unfolding KeyLine_float_accessors_def
  apply (simp only: list.set insert_iff empty_iff prod.inject simp_thms)
  apply (elim disjE conjE)
  apply (simp_all add: accessor_defs block_defs at_defs)
  apply (intro allI impI field_of_KeyLine_cong; simp)+
  done

lemma KeyLine_float_accessors_roundtrip:
  assumes "(f, g, s) \<in> set KeyLine_float_accessors" and "objs m h = Some (KeyLine_object obj)"
  shows "\<exists>m'. s h val m = Some (Ok (), m') \<and> g h m' = Some (Ok val, m')"
  using assms unfolding KeyLine_float_accessors_def
  apply (simp only: list.set insert_iff empty_iff prod.inject simp_thms)
  apply (elim disjE conjE)
  apply (simp_all add: accessor_defs block_defs at_defs)
  done

lemma KeyLine_int_accessors_get:
  assumes "(f, g, s) \<in> set KeyLine_int_accessors" and "objs m h = Some (KeyLine_object obj)"
  shows "\<exists>v. g h m = Some (Ok v, m) \<and> field_of KeyLine_fields f obj = Some (Int_field v)"
  using assms unfolding KeyLine_int_accessors_def
  apply (simp only: list.set insert_iff empty_iff prod.inject simp_thms)
  apply (elim disjE conjE)
  apply (simp_all add: accessor_defs block_defs at_defs field_of_def KeyLine_fields_def)
  done

lemma KeyLine_int_accessors_frame:
  assumes "(f, g, s) \<in> set KeyLine_int_accessors" and "objs m h = Some (KeyLine_object obj)"
  shows "\<exists>m'. s h val m = Some (Ok (), m') \<and> brk m' = brk m \<and>
           (\<forall>a. a \<noteq> h \<longrightarrow> objs m' a = objs m a) \<and>
           (\<exists>obj'. objs m' h = Some (KeyLine_object obj') \<and>
              (\<forall>f'. f' \<noteq> f \<longrightarrow> field_of KeyLine_fields f' obj' = field_of KeyLine_fields f' obj))"
  using assms unfolding KeyLine_int_accessors_def
  apply (simp only: list.set insert_iff empty_iff prod.inject simp_thms)
  apply (elim disjE conjE)
  apply (simp_all add: accessor_defs block_defs at_defs)
  apply (intro allI impI field_of_KeyLine_cong; simp)+
  done

lemma KeyLine_int_accessors_roundtrip:
  assumes "(f, g, s) \<in> set KeyLine_int_accessors" and "objs m h = Some (KeyLine_object obj)"
  shows "\<exists>m'. s h val m = Some (Ok (), m') \<and> g h m' = Some (Ok val, m')"
  using assms unfolding KeyLine_int_accessors_def
  apply (simp only: list.set insert_iff empty_iff prod.inject simp_thms)
  apply (elim disjE conjE)
  apply (simp_all add: accessor_defs block_defs at_defs)
  done

lemma KeyLine_Point2f_accessors_get:
  assumes "(f, g, s) \<in> set KeyLine_Point2f_accessors" and "objs m h = Some (KeyLine_object obj)"
  shows "\<exists>v. g h m = Some (Ok v, m) \<and> field_of KeyLine_fields f obj = Some (Point2f_field v)"
  using assms unfolding KeyLine_Point2f_accessors_def
  apply (simp only: list.set insert_iff empty_iff prod.inject simp_thms)
  apply (elim disjE conjE)
  apply (simp_all add: accessor_defs block_defs at_defs field_of_def KeyLine_fields_def)
  done

lemma KeyLine_Point2f_accessors_frame:
  assumes "(f, g, s) \<in> set KeyLine_Point2f_accessors" and "objs m h = Some (KeyLine_object obj)"
    and "objs m p = Some (Point2f_object val)"
  shows "\<exists>m'. s h p m = Some (Ok (), m') \<and> brk m' = brk m \<and>
           (\<forall>a. a \<noteq> h \<longrightarrow> objs m' a = objs m a) \<and>
           (\<exists>obj'. objs m' h = Some (KeyLine_object obj') \<and>
              (\<forall>f'. f' \<noteq> f \<longrightarrow> field_of KeyLine_fields f' obj' = field_of KeyLine_fields f' obj))"
  using assms unfolding KeyLine_Point2f_accessors_def
  apply (simp only: list.set insert_iff empty_iff prod.inject simp_thms)
  apply (elim disjE conjE)
  apply (simp_all add: accessor_defs block_defs at_defs)
  apply (intro allI impI field_of_KeyLine_cong; simp)+
  done

lemma KeyLine_Point2f_accessors_roundtrip:
  assumes "(f, g, s) \<in> set KeyLine_Point2f_accessors" and "objs m h = Some (KeyLine_object obj)"
    and "objs m p = Some (Point2f_object val)"
  shows "\<exists>m'. s h p m = Some (Ok (), m') \<and> g h m' = Some (Ok val, m')"
  using assms unfolding KeyLine_Point2f_accessors_def
  apply (simp only: list.set insert_iff empty_iff prod.inject simp_thms)
  apply (elim disjE conjE)
  apply (simp_all add: accessor_defs block_defs at_defs)
  done

subsection \<open>Exceptions and normal returns of a guarded call\<close>

lemma one_arm: "is_Ok r \<longleftrightarrow> \<not> is_Err r"
  by (cases r) simp_all

text \<open>What each block returns, as equivalences.\<close>

lemma yield_eq: "yield v m = Some (x, m') \<longleftrightarrow> x = Inr v \<and> m' = m"
  by (auto simp: yield_def)

lemma live_eq:
  "live ps m = Some (x, m') \<longleftrightarrow> list_all (\<lambda>p. objs m p \<noteq> None) ps \<and> x = Inr () \<and> m' = m"
  by (auto simp: live_def)

lemma new_object_eq:
  "new_object obj m = Some (x, m') \<longleftrightarrow>
     x = Inr (brk m) \<and> m' = m\<lparr>objs := (objs m)(brk m \<mapsto> obj), brk := Suc (brk m)\<rparr>"
  by (auto simp: new_object_def)

lemma seq_eq:
  "seq f g m = Some (x, m') \<longleftrightarrow>
     (\<exists>e. f m = Some (Inl e, m') \<and> x = Inl e) \<or>
     (\<exists>v m1. f m = Some (Inr v, m1) \<and> g v m1 = Some (x, m'))"
  by (auto simp: seq_def split: option.splits sum.splits prod.splits)

lemma OCVRS_CATCH_eq:
  "OCVRS_CATCH body m = Some (r, m') \<longleftrightarrow>
     (\<exists>e. body m = Some (Inl e, m') \<and> r = Err (error_of e)) \<or> body m = Some (Inr r, m')"
  by (auto simp: OCVRS_CATCH_def split: option.splits sum.splits prod.splits)

lemmas block_eqs = yield_eq live_eq new_object_eq seq_eq OCVRS_CATCH_eq



text \<open>
  C8. An envelope that an entry point returns is success-tagged or error-tagged and not
  both. When one of the four shapes of guarded call returns an error record, the native
  operation threw, and the record holds the classification and the message and code of
  that exception. So for \<^verbatim>\<open>cv_ximgproc_FastHoughTransform\<close> and \<^verbatim>\<open>cv_line_descriptor_drawKeylines\<close>.
\<close>

theorem envelope_one_arm:
  "(OCVRS_CATCH body m = Some (r0, m') \<longrightarrow> (is_Ok r0 \<longleftrightarrow> \<not> is_Err r0))
    \<and> (guarded_call ps f_call m = Some (r1, m') \<longrightarrow> (is_Ok r1 \<longleftrightarrow> \<not> is_Err r1) \<and>
         (\<forall>er. r1 = Err er \<longrightarrow> kind er = Native_operation_failed \<and>
            (\<exists>e. f_call m = Some (Inl e, m') \<and> message er = exn_what e \<and> code er = exn_code e)))
    \<and> (guarded_value ps f_value m = Some (r2, m') \<longrightarrow> (is_Ok r2 \<longleftrightarrow> \<not> is_Err r2) \<and>
         (\<forall>er. r2 = Err er \<longrightarrow> kind er = Native_operation_failed \<and>
            (\<exists>e. f_value m = Some (Inl e, m') \<and> message er = exn_what e \<and> code er = exn_code e)))
    \<and> (guarded_boxed T ps f_boxed m = Some (r3, m') \<longrightarrow> (is_Ok r3 \<longleftrightarrow> \<not> is_Err r3) \<and>
         (\<forall>er. r3 = Err er \<longrightarrow> kind er = Native_operation_failed \<and>
            (\<exists>e. f_boxed m = Some (Inl e, m') \<and> message er = exn_what e \<and> code er = exn_code e)))
    \<and> (guarded_new ps ctor m = Some (r4, m') \<longrightarrow> (is_Ok r4 \<longleftrightarrow> \<not> is_Err r4) \<and>
         (\<forall>er. r4 = Err er \<longrightarrow> kind er = Native_operation_failed \<and>
            (\<exists>e. ctor m = Some (Inl e, m') \<and> message er = exn_what e \<and> code er = exn_code e)))
    \<and> (cv_ximgproc_FastHoughTransform_const__InputArrayR_const__OutputArrayR_int_int_int_int
           FastHoughTransform src dst dstMatDepth angleRange op makeSkew m = Some (r5, m') \<longrightarrow>
         (is_Ok r5 \<longleftrightarrow> \<not> is_Err r5) \<and>
         (\<forall>er. r5 = Err er \<longrightarrow> kind er = Native_operation_failed \<and>
            (\<exists>e. FastHoughTransform src dst dstMatDepth angleRange op makeSkew m = Some (Inl e, m') \<and>
               message er = exn_what e \<and> code er = exn_code e)))
    \<and> (cv_line_descriptor_drawKeylines_const_MatR_const_vector_KeyLine_R_MatR_const_ScalarR_int
           drawKeylines image' keylines outImage color flags m = Some (r6, m') \<longrightarrow>
         (is_Ok r6 \<longleftrightarrow> \<not> is_Err r6) \<and>
         (\<forall>er. r6 = Err er \<longrightarrow> kind er = Native_operation_failed \<and>
            (\<exists>e. drawKeylines image' keylines outImage color flags m = Some (Inl e, m') \<and>
               message er = exn_what e \<and> code er = exn_code e)))"
  by (auto simp: one_arm shape_defs block_eqs error_of_def
      cv_ximgproc_FastHoughTransform_const__InputArrayR_const__OutputArrayR_int_int_int_int_def
      cv_line_descriptor_drawKeylines_const_MatR_const_vector_KeyLine_R_MatR_const_ScalarR_int_def)

theorem envelope_one_arm_witness:
  "cv_ximgproc_FastHoughTransform_const__InputArrayR_const__OutputArrayR_int_int_int_int
      (\<lambda>src dst dstMatDepth angleRange op makeSkew m. Some (Inl (Native_exception (Some 5) ''bad depth''), m))
      1 1 0 0 0 0 \<lparr>objs = Map.empty(1 \<mapsto> Native_object ''cv::_InputArray'' ()), brk = 2\<rparr>
    = Some (Err \<lparr>kind = Native_operation_failed, code = Some 5, message = ''bad depth''\<rparr>,
        \<lparr>objs = Map.empty(1 \<mapsto> Native_object ''cv::_InputArray'' ()), brk = 2\<rparr>)
   \<and> is_Err (Err \<lparr>kind = Native_operation_failed, code = Some 5, message = ''bad depth''\<rparr> :: unit Result)
   \<and> \<not> is_Ok (Err \<lparr>kind = Native_operation_failed, code = Some 5, message = ''bad depth''\<rparr> :: unit Result)
   \<and> exn_what (Native_exception (Some 5) ''bad depth'') = ''bad depth''"
proof -
  let ?m = "\<lparr>objs = Map.empty(1 \<mapsto> Native_object ''cv::_InputArray'' ()), brk = 2\<rparr> :: unit memory"
  let ?FastHoughTransform = "\<lambda>(src::addr) (dst::addr) (dstMatDepth::c_int) (angleRange::c_int)
    (op::c_int) (makeSkew::c_int) (m::unit memory).
    Some (Inl (Native_exception (Some 5) ''bad depth'') :: native_exception + unit, m)"
  let ?r = "Err \<lparr>kind = Native_operation_failed, code = Some 5, message = ''bad depth''\<rparr> :: unit Result"
  have returned:
    "cv_ximgproc_FastHoughTransform_const__InputArrayR_const__OutputArrayR_int_int_int_int
       ?FastHoughTransform 1 1 0 0 0 0 ?m = Some (?r, ?m)"
    by (simp add: shape_defs block_defs error_of_def
        cv_ximgproc_FastHoughTransform_const__InputArrayR_const__OutputArrayR_int_int_int_int_def)
  note FastHoughTransform_case = envelope_one_arm
      [where FastHoughTransform = ?FastHoughTransform and src = 1 and dst = 1 and dstMatDepth = 0
         and angleRange = 0 and op = 0 and makeSkew = 0 and m = ?m and m' = ?m and ?r5.0 = ?r,
       THEN conjunct2, THEN conjunct2, THEN conjunct2, THEN conjunct2, THEN conjunct2,
       THEN conjunct1, THEN mp]
  from FastHoughTransform_case [OF returned] returned show ?thesis
    by simp
qed

subsection \<open>Field accessors\<close>

text \<open>
  C6. For each of the twenty get/set pairs of \<^verbatim>\<open>Params\<close> and \<^verbatim>\<open>KeyLine\<close>, on a handle that is
  not null and points to a live object of the class, the set entry point called with a
  value succeeds, and the get entry point called next on the same handle returns a
  success-tagged envelope with that value. The setter of \<^verbatim>\<open>pt\<close> takes the value through a
  pointer to a live \<^verbatim>\<open>cv::Point2f\<close>.
\<close>

theorem set_then_get:
  "(\<forall>(f, g, s) \<in> set Params_int_accessors. \<forall>h val (m :: 'n memory) obj.
      h \<noteq> nullptr \<and> objs m h = Some (Params_object obj) \<longrightarrow>
      (\<exists>m'. s h val m = Some (Ok (), m') \<and> g h m' = Some (Ok val, m')))
   \<and> (\<forall>(f, g, s) \<in> set KeyLine_float_accessors. \<forall>h val (m :: 'n memory) obj.
      h \<noteq> nullptr \<and> objs m h = Some (KeyLine_object obj) \<longrightarrow>
      (\<exists>m'. s h val m = Some (Ok (), m') \<and> g h m' = Some (Ok val, m')))
   \<and> (\<forall>(f, g, s) \<in> set KeyLine_int_accessors. \<forall>h val (m :: 'n memory) obj.
      h \<noteq> nullptr \<and> objs m h = Some (KeyLine_object obj) \<longrightarrow>
      (\<exists>m'. s h val m = Some (Ok (), m') \<and> g h m' = Some (Ok val, m')))
   \<and> (\<forall>(f, g, s) \<in> set KeyLine_Point2f_accessors. \<forall>h p val (m :: 'n memory) obj.
      h \<noteq> nullptr \<and> objs m h = Some (KeyLine_object obj) \<and>
      objs m p = Some (Point2f_object val) \<longrightarrow>
      (\<exists>m'. s h p m = Some (Ok (), m') \<and> g h m' = Some (Ok val, m')))"
proof (intro conjI ballI)
  fix x assume "x \<in> set (Params_int_accessors :: (_ \<times> (_ \<Rightarrow> 'n memory \<Rightarrow> _) \<times> _) list)"
  then show "case x of (f, g, s) \<Rightarrow> \<forall>h val (m :: 'n memory) obj.
      h \<noteq> nullptr \<and> objs m h = Some (Params_object obj) \<longrightarrow>
      (\<exists>m'. s h val m = Some (Ok (), m') \<and> g h m' = Some (Ok val, m'))"
    by (cases x rule: prod_cases3)
      (simp only: prod.case, intro allI impI, elim conjE, rule Params_int_accessors_roundtrip; assumption)
next
  fix x assume "x \<in> set (KeyLine_float_accessors :: (_ \<times> (_ \<Rightarrow> 'n memory \<Rightarrow> _) \<times> _) list)"
  then show "case x of (f, g, s) \<Rightarrow> \<forall>h val (m :: 'n memory) obj.
      h \<noteq> nullptr \<and> objs m h = Some (KeyLine_object obj) \<longrightarrow>
      (\<exists>m'. s h val m = Some (Ok (), m') \<and> g h m' = Some (Ok val, m'))"
    by (cases x rule: prod_cases3)
      (simp only: prod.case, intro allI impI, elim conjE, rule KeyLine_float_accessors_roundtrip; assumption)
next
  fix x assume "x \<in> set (KeyLine_int_accessors :: (_ \<times> (_ \<Rightarrow> 'n memory \<Rightarrow> _) \<times> _) list)"
  then show "case x of (f, g, s) \<Rightarrow> \<forall>h val (m :: 'n memory) obj.
      h \<noteq> nullptr \<and> objs m h = Some (KeyLine_object obj) \<longrightarrow>
      (\<exists>m'. s h val m = Some (Ok (), m') \<and> g h m' = Some (Ok val, m'))"
    by (cases x rule: prod_cases3)
      (simp only: prod.case, intro allI impI, elim conjE, rule KeyLine_int_accessors_roundtrip; assumption)
next
  fix x assume "x \<in> set (KeyLine_Point2f_accessors :: (_ \<times> (_ \<Rightarrow> 'n memory \<Rightarrow> _) \<times> _) list)"
  then show "case x of (f, g, s) \<Rightarrow> \<forall>h p val (m :: 'n memory) obj.
      h \<noteq> nullptr \<and> objs m h = Some (KeyLine_object obj) \<and>
      objs m p = Some (Point2f_object val) \<longrightarrow>
      (\<exists>m'. s h p m = Some (Ok (), m') \<and> g h m' = Some (Ok val, m'))"
    by (cases x rule: prod_cases3)
      (simp only: prod.case, intro allI impI, elim conjE, rule KeyLine_Point2f_accessors_roundtrip; assumption)
qed

theorem set_then_get_witness:
  "(''widthOfBand_'', cv_line_descriptor_BinaryDescriptor_Params_getPropWidthOfBand__const,
      cv_line_descriptor_BinaryDescriptor_Params_setPropWidthOfBand__int)
     \<in> set (Params_int_accessors :: (string \<times> (addr \<Rightarrow> unit memory \<Rightarrow> _) \<times> _) list)
   \<and> (1::addr) \<noteq> nullptr
   \<and> objs (\<lparr>objs = Map.empty(1 \<mapsto> Params_object \<lparr>numOfOctave = 1, widthOfBand = 7, reductionRatio = 2, ksize = 5\<rparr>), brk = 2\<rparr> :: unit memory) 1
       = Some (Params_object \<lparr>numOfOctave = 1, widthOfBand = 7, reductionRatio = 2, ksize = 5\<rparr>)
   \<and> cv_line_descriptor_BinaryDescriptor_Params_setPropWidthOfBand__int 1 9
         (\<lparr>objs = Map.empty(1 \<mapsto> Params_object \<lparr>numOfOctave = 1, widthOfBand = 7, reductionRatio = 2, ksize = 5\<rparr>), brk = 2\<rparr> :: unit memory)
       = Some (Ok (), \<lparr>objs = Map.empty(1 \<mapsto> Params_object \<lparr>numOfOctave = 1, widthOfBand = 9, reductionRatio = 2, ksize = 5\<rparr>), brk = 2\<rparr>)
   \<and> cv_line_descriptor_BinaryDescriptor_Params_getPropWidthOfBand__const 1
         (\<lparr>objs = Map.empty(1 \<mapsto> Params_object \<lparr>numOfOctave = 1, widthOfBand = 9, reductionRatio = 2, ksize = 5\<rparr>), brk = 2\<rparr> :: unit memory)
       = Some (Ok 9, \<lparr>objs = Map.empty(1 \<mapsto> Params_object \<lparr>numOfOctave = 1, widthOfBand = 9, reductionRatio = 2, ksize = 5\<rparr>), brk = 2\<rparr>)"
proof -
  let ?m = "\<lparr>objs = Map.empty(1 \<mapsto> Params_object \<lparr>numOfOctave = 1, widthOfBand = 7, reductionRatio = 2, ksize = 5\<rparr>), brk = 2\<rparr> :: unit memory"
  have mem: "(''widthOfBand_'', cv_line_descriptor_BinaryDescriptor_Params_getPropWidthOfBand__const,
      cv_line_descriptor_BinaryDescriptor_Params_setPropWidthOfBand__int)
    \<in> set (Params_int_accessors :: (string \<times> (addr \<Rightarrow> unit memory \<Rightarrow> _) \<times> _) list)"
    by (simp add: Params_int_accessors_def)
  have valid: "(1::addr) \<noteq> nullptr \<and> objs ?m 1 = Some (Params_object \<lparr>numOfOctave = 1, widthOfBand = 7, reductionRatio = 2, ksize = 5\<rparr>)"
    by simp
  note widthOfBand_case = set_then_get [where 'n = unit, THEN conjunct1, THEN bspec, OF mem,
      unfolded prod.case, rule_format, OF valid]
  from widthOfBand_case [of 9] mem valid show ?thesis
    by (simp add: accessor_defs block_defs at_defs)
qed



text \<open>
  C10. On a handle that is not null and points to a live object of the class, a get
  accessor returns the memory as it was, so no field of any object changes; a set accessor
  of field \<open>f\<close> leaves every other object and the allocator as they were and, in
  the object itself, every field other than \<open>f\<close>.
\<close>

theorem accessors_frame:
  "(\<forall>(f, g, s) \<in> set Params_int_accessors. \<forall>h (m :: 'n memory) obj.
      h \<noteq> nullptr \<and> objs m h = Some (Params_object obj) \<longrightarrow>
      (\<exists>r. g h m = Some (r, m)) \<and>
      (\<forall>val. \<exists>m'. s h val m = Some (Ok (), m') \<and> brk m' = brk m \<and>
          (\<forall>a. a \<noteq> h \<longrightarrow> objs m' a = objs m a) \<and>
          (\<exists>obj'. objs m' h = Some (Params_object obj') \<and>
             (\<forall>f'. f' \<noteq> f \<longrightarrow> field_of Params_fields f' obj' = field_of Params_fields f' obj))))
   \<and> (\<forall>(f, g, s) \<in> set KeyLine_float_accessors. \<forall>h (m :: 'n memory) obj.
      h \<noteq> nullptr \<and> objs m h = Some (KeyLine_object obj) \<longrightarrow>
      (\<exists>r. g h m = Some (r, m)) \<and>
      (\<forall>val. \<exists>m'. s h val m = Some (Ok (), m') \<and> brk m' = brk m \<and>
          (\<forall>a. a \<noteq> h \<longrightarrow> objs m' a = objs m a) \<and>
          (\<exists>obj'. objs m' h = Some (KeyLine_object obj') \<and>
             (\<forall>f'. f' \<noteq> f \<longrightarrow> field_of KeyLine_fields f' obj' = field_of KeyLine_fields f' obj))))
   \<and> (\<forall>(f, g, s) \<in> set KeyLine_int_accessors. \<forall>h (m :: 'n memory) obj.
      h \<noteq> nullptr \<and> objs m h = Some (KeyLine_object obj) \<longrightarrow>
      (\<exists>r. g h m = Some (r, m)) \<and>
      (\<forall>val. \<exists>m'. s h val m = Some (Ok (), m') \<and> brk m' = brk m \<and>
          (\<forall>a. a \<noteq> h \<longrightarrow> objs m' a = objs m a) \<and>
          (\<exists>obj'. objs m' h = Some (KeyLine_object obj') \<and>
             (\<forall>f'. f' \<noteq> f \<longrightarrow> field_of KeyLine_fields f' obj' = field_of KeyLine_fields f' obj))))
   \<and> (\<forall>(f, g, s) \<in> set KeyLine_Point2f_accessors. \<forall>h (m :: 'n memory) obj.
      h \<noteq> nullptr \<and> objs m h = Some (KeyLine_object obj) \<longrightarrow>
      (\<exists>r. g h m = Some (r, m)) \<and>
      (\<forall>p val. objs m p = Some (Point2f_object val) \<longrightarrow>
         (\<exists>m'. s h p m = Some (Ok (), m') \<and> brk m' = brk m \<and>
          (\<forall>a. a \<noteq> h \<longrightarrow> objs m' a = objs m a) \<and>
          (\<exists>obj'. objs m' h = Some (KeyLine_object obj') \<and>
             (\<forall>f'. f' \<noteq> f \<longrightarrow> field_of KeyLine_fields f' obj' = field_of KeyLine_fields f' obj)))))"
proof (intro conjI ballI)
  fix x assume mem: "x \<in> set (Params_int_accessors :: (_ \<times> (_ \<Rightarrow> 'n memory \<Rightarrow> _) \<times> _) list)"
  obtain f g s where x: "x = (f, g, s)"
    by (cases x rule: prod_cases3)
  note mem = mem [unfolded x]
  have get: "\<exists>r. g h m = Some (r, m)"
    if "objs m h = Some (Params_object obj)" for h m obj
    using Params_int_accessors_get [OF mem that] by blast
  have set: "\<exists>m'. s h val m = Some (Ok (), m') \<and> brk m' = brk m \<and>
          (\<forall>a. a \<noteq> h \<longrightarrow> objs m' a = objs m a) \<and>
          (\<exists>obj'. objs m' h = Some (Params_object obj') \<and>
             (\<forall>f'. f' \<noteq> f \<longrightarrow> field_of Params_fields f' obj' = field_of Params_fields f' obj))"
    if "objs m h = Some (Params_object obj)" for h m obj val
    using Params_int_accessors_frame [OF mem that] by blast
  have "\<forall>h (m :: 'n memory) obj.
      h \<noteq> nullptr \<and> objs m h = Some (Params_object obj) \<longrightarrow>
      (\<exists>r. g h m = Some (r, m)) \<and>
      (\<forall>val. \<exists>m'. s h val m = Some (Ok (), m') \<and> brk m' = brk m \<and>
          (\<forall>a. a \<noteq> h \<longrightarrow> objs m' a = objs m a) \<and>
          (\<exists>obj'. objs m' h = Some (Params_object obj') \<and>
             (\<forall>f'. f' \<noteq> f \<longrightarrow> field_of Params_fields f' obj' = field_of Params_fields f' obj)))"
    using get set by blast
  then show "case x of (f, g, s) \<Rightarrow> \<forall>h (m :: 'n memory) obj.
      h \<noteq> nullptr \<and> objs m h = Some (Params_object obj) \<longrightarrow>
      (\<exists>r. g h m = Some (r, m)) \<and>
      (\<forall>val. \<exists>m'. s h val m = Some (Ok (), m') \<and> brk m' = brk m \<and>
          (\<forall>a. a \<noteq> h \<longrightarrow> objs m' a = objs m a) \<and>
          (\<exists>obj'. objs m' h = Some (Params_object obj') \<and>
             (\<forall>f'. f' \<noteq> f \<longrightarrow> field_of Params_fields f' obj' = field_of Params_fields f' obj)))"
    unfolding x prod.case .
next
  fix x assume mem: "x \<in> set (KeyLine_float_accessors :: (_ \<times> (_ \<Rightarrow> 'n memory \<Rightarrow> _) \<times> _) list)"
  obtain f g s where x: "x = (f, g, s)"
    by (cases x rule: prod_cases3)
  note mem = mem [unfolded x]
  have get: "\<exists>r. g h m = Some (r, m)"
    if "objs m h = Some (KeyLine_object obj)" for h m obj
    using KeyLine_float_accessors_get [OF mem that] by blast
  have set: "\<exists>m'. s h val m = Some (Ok (), m') \<and> brk m' = brk m \<and>
          (\<forall>a. a \<noteq> h \<longrightarrow> objs m' a = objs m a) \<and>
          (\<exists>obj'. objs m' h = Some (KeyLine_object obj') \<and>
             (\<forall>f'. f' \<noteq> f \<longrightarrow> field_of KeyLine_fields f' obj' = field_of KeyLine_fields f' obj))"
    if "objs m h = Some (KeyLine_object obj)" for h m obj val
    using KeyLine_float_accessors_frame [OF mem that] by blast
  have "\<forall>h (m :: 'n memory) obj.
      h \<noteq> nullptr \<and> objs m h = Some (KeyLine_object obj) \<longrightarrow>
      (\<exists>r. g h m = Some (r, m)) \<and>
      (\<forall>val. \<exists>m'. s h val m = Some (Ok (), m') \<and> brk m' = brk m \<and>
          (\<forall>a. a \<noteq> h \<longrightarrow> objs m' a = objs m a) \<and>
          (\<exists>obj'. objs m' h = Some (KeyLine_object obj') \<and>
             (\<forall>f'. f' \<noteq> f \<longrightarrow> field_of KeyLine_fields f' obj' = field_of KeyLine_fields f' obj)))"
    using get set by blast
  then show "case x of (f, g, s) \<Rightarrow> \<forall>h (m :: 'n memory) obj.
      h \<noteq> nullptr \<and> objs m h = Some (KeyLine_object obj) \<longrightarrow>
      (\<exists>r. g h m = Some (r, m)) \<and>
      (\<forall>val. \<exists>m'. s h val m = Some (Ok (), m') \<and> brk m' = brk m \<and>
          (\<forall>a. a \<noteq> h \<longrightarrow> objs m' a = objs m a) \<and>
          (\<exists>obj'. objs m' h = Some (KeyLine_object obj') \<and>
             (\<forall>f'. f' \<noteq> f \<longrightarrow> field_of KeyLine_fields f' obj' = field_of KeyLine_fields f' obj)))"
    unfolding x prod.case .
next
  fix x assume mem: "x \<in> set (KeyLine_int_accessors :: (_ \<times> (_ \<Rightarrow> 'n memory \<Rightarrow> _) \<times> _) list)"
  obtain f g s where x: "x = (f, g, s)"
    by (cases x rule: prod_cases3)
  note mem = mem [unfolded x]
  have get: "\<exists>r. g h m = Some (r, m)"
    if "objs m h = Some (KeyLine_object obj)" for h m obj
    using KeyLine_int_accessors_get [OF mem that] by blast
  have set: "\<exists>m'. s h val m = Some (Ok (), m') \<and> brk m' = brk m \<and>
          (\<forall>a. a \<noteq> h \<longrightarrow> objs m' a = objs m a) \<and>
          (\<exists>obj'. objs m' h = Some (KeyLine_object obj') \<and>
             (\<forall>f'. f' \<noteq> f \<longrightarrow> field_of KeyLine_fields f' obj' = field_of KeyLine_fields f' obj))"
    if "objs m h = Some (KeyLine_object obj)" for h m obj val
    using KeyLine_int_accessors_frame [OF mem that] by blast
  have "\<forall>h (m :: 'n memory) obj.
      h \<noteq> nullptr \<and> objs m h = Some (KeyLine_object obj) \<longrightarrow>
      (\<exists>r. g h m = Some (r, m)) \<and>
      (\<forall>val. \<exists>m'. s h val m = Some (Ok (), m') \<and> brk m' = brk m \<and>
          (\<forall>a. a \<noteq> h \<longrightarrow> objs m' a = objs m a) \<and>
          (\<exists>obj'. objs m' h = Some (KeyLine_object obj') \<and>
             (\<forall>f'. f' \<noteq> f \<longrightarrow> field_of KeyLine_fields f' obj' = field_of KeyLine_fields f' obj)))"
    using get set by blast
  then show "case x of (f, g, s) \<Rightarrow> \<forall>h (m :: 'n memory) obj.
      h \<noteq> nullptr \<and> objs m h = Some (KeyLine_object obj) \<longrightarrow>
      (\<exists>r. g h m = Some (r, m)) \<and>
      (\<forall>val. \<exists>m'. s h val m = Some (Ok (), m') \<and> brk m' = brk m \<and>
          (\<forall>a. a \<noteq> h \<longrightarrow> objs m' a = objs m a) \<and>
          (\<exists>obj'. objs m' h = Some (KeyLine_object obj') \<and>
             (\<forall>f'. f' \<noteq> f \<longrightarrow> field_of KeyLine_fields f' obj' = field_of KeyLine_fields f' obj)))"
    unfolding x prod.case .
next
  fix x assume mem: "x \<in> set (KeyLine_Point2f_accessors :: (_ \<times> (_ \<Rightarrow> 'n memory \<Rightarrow> _) \<times> _) list)"
  obtain f g s where x: "x = (f, g, s)"
    by (cases x rule: prod_cases3)
  note mem = mem [unfolded x]
  have get: "\<exists>r. g h m = Some (r, m)"
    if "objs m h = Some (KeyLine_object obj)" for h m obj
    using KeyLine_Point2f_accessors_get [OF mem that] by blast
  have set: "\<exists>m'. s h p m = Some (Ok (), m') \<and> brk m' = brk m \<and>
          (\<forall>a. a \<noteq> h \<longrightarrow> objs m' a = objs m a) \<and>
          (\<exists>obj'. objs m' h = Some (KeyLine_object obj') \<and>
             (\<forall>f'. f' \<noteq> f \<longrightarrow> field_of KeyLine_fields f' obj' = field_of KeyLine_fields f' obj))"
    if "objs m h = Some (KeyLine_object obj)" and "objs m p = Some (Point2f_object val)"
      for h m obj p val
    using KeyLine_Point2f_accessors_frame [OF mem that] by blast
  have "\<forall>h (m :: 'n memory) obj.
      h \<noteq> nullptr \<and> objs m h = Some (KeyLine_object obj) \<longrightarrow>
      (\<exists>r. g h m = Some (r, m)) \<and>
      (\<forall>p val. objs m p = Some (Point2f_object val) \<longrightarrow>
         (\<exists>m'. s h p m = Some (Ok (), m') \<and> brk m' = brk m \<and>
          (\<forall>a. a \<noteq> h \<longrightarrow> objs m' a = objs m a) \<and>
          (\<exists>obj'. objs m' h = Some (KeyLine_object obj') \<and>
             (\<forall>f'. f' \<noteq> f \<longrightarrow> field_of KeyLine_fields f' obj' = field_of KeyLine_fields f' obj))))"
    using get set by blast
  then show "case x of (f, g, s) \<Rightarrow> \<forall>h (m :: 'n memory) obj.
      h \<noteq> nullptr \<and> objs m h = Some (KeyLine_object obj) \<longrightarrow>
      (\<exists>r. g h m = Some (r, m)) \<and>
      (\<forall>p val. objs m p = Some (Point2f_object val) \<longrightarrow>
         (\<exists>m'. s h p m = Some (Ok (), m') \<and> brk m' = brk m \<and>
          (\<forall>a. a \<noteq> h \<longrightarrow> objs m' a = objs m a) \<and>
          (\<exists>obj'. objs m' h = Some (KeyLine_object obj') \<and>
             (\<forall>f'. f' \<noteq> f \<longrightarrow> field_of KeyLine_fields f' obj' = field_of KeyLine_fields f' obj))))"
    unfolding x prod.case .
qed

theorem accessors_frame_witness:
  "(''widthOfBand_'', cv_line_descriptor_BinaryDescriptor_Params_getPropWidthOfBand__const,
      cv_line_descriptor_BinaryDescriptor_Params_setPropWidthOfBand__int)
     \<in> set (Params_int_accessors :: (string \<times> (addr \<Rightarrow> unit memory \<Rightarrow> _) \<times> _) list)
   \<and> (1::addr) \<noteq> nullptr
   \<and> objs (\<lparr>objs = Map.empty(1 \<mapsto> Params_object \<lparr>numOfOctave = 1, widthOfBand = 7, reductionRatio = 2, ksize = 5\<rparr>), brk = 2\<rparr> :: unit memory) 1
       = Some (Params_object \<lparr>numOfOctave = 1, widthOfBand = 7, reductionRatio = 2, ksize = 5\<rparr>)
   \<and> cv_line_descriptor_BinaryDescriptor_Params_getPropWidthOfBand__const 1
         (\<lparr>objs = Map.empty(1 \<mapsto> Params_object \<lparr>numOfOctave = 1, widthOfBand = 7, reductionRatio = 2, ksize = 5\<rparr>), brk = 2\<rparr> :: unit memory)
       = Some (Ok 7, \<lparr>objs = Map.empty(1 \<mapsto> Params_object \<lparr>numOfOctave = 1, widthOfBand = 7, reductionRatio = 2, ksize = 5\<rparr>), brk = 2\<rparr>)
   \<and> cv_line_descriptor_BinaryDescriptor_Params_setPropWidthOfBand__int 1 9
         (\<lparr>objs = Map.empty(1 \<mapsto> Params_object \<lparr>numOfOctave = 1, widthOfBand = 7, reductionRatio = 2, ksize = 5\<rparr>), brk = 2\<rparr> :: unit memory)
       = Some (Ok (), \<lparr>objs = Map.empty(1 \<mapsto> Params_object \<lparr>numOfOctave = 1, widthOfBand = 9, reductionRatio = 2, ksize = 5\<rparr>), brk = 2\<rparr>)
   \<and> field_of Params_fields ''ksize_'' \<lparr>numOfOctave = 1, widthOfBand = 9, reductionRatio = 2, ksize = 5\<rparr>
       = field_of Params_fields ''ksize_'' \<lparr>numOfOctave = 1, widthOfBand = 7, reductionRatio = 2, ksize = 5\<rparr>"
proof -
  let ?m = "\<lparr>objs = Map.empty(1 \<mapsto> Params_object \<lparr>numOfOctave = 1, widthOfBand = 7, reductionRatio = 2, ksize = 5\<rparr>), brk = 2\<rparr> :: unit memory"
  have mem: "(''widthOfBand_'', cv_line_descriptor_BinaryDescriptor_Params_getPropWidthOfBand__const,
      cv_line_descriptor_BinaryDescriptor_Params_setPropWidthOfBand__int)
    \<in> set (Params_int_accessors :: (string \<times> (addr \<Rightarrow> unit memory \<Rightarrow> _) \<times> _) list)"
    by (simp add: Params_int_accessors_def)
  have valid: "(1::addr) \<noteq> nullptr \<and> objs ?m 1 = Some (Params_object \<lparr>numOfOctave = 1, widthOfBand = 7, reductionRatio = 2, ksize = 5\<rparr>)"
    by simp
  note widthOfBand_case = accessors_frame [where 'n = unit, THEN conjunct1, THEN bspec, OF mem,
      unfolded prod.case, rule_format, OF valid]
  from widthOfBand_case mem valid show ?thesis
    by (simp add: accessor_defs block_defs at_defs field_of_def Params_fields_def)
qed

subsection \<open>Destructors\<close>

text \<open>
  C9. Each of the six destructors, called with the null pointer, returns normally and
  leaves the memory as it was: nothing is released.
\<close>

theorem delete_null_is_noop:
  "\<forall>d \<in> set destructors. \<forall>m :: 'n memory. d nullptr m = Some m"
  by (simp add: destructors_def delete_object_def
      cv_BinaryDescriptor_delete_def cv_BinaryDescriptor_Params_delete_def
      cv_BinaryDescriptorMatcher_delete_def cv_DrawLinesMatchesFlags_delete_def
      cv_KeyLine_delete_def cv_LSDDetector_delete_def)

theorem delete_null_is_noop_witness:
  "cv_LSDDetector_delete \<in> set (destructors :: (addr \<Rightarrow> unit memory \<Rightarrow> unit memory option) list)
   \<and> cv_LSDDetector_delete nullptr \<lparr>objs = Map.empty(1 \<mapsto> Native_object ''cv::line_descriptor::LSDDetector'' ()), brk = 2\<rparr>
       = Some \<lparr>objs = Map.empty(1 \<mapsto> Native_object ''cv::line_descriptor::LSDDetector'' ()), brk = 2\<rparr>"
proof -
  have mem: "cv_LSDDetector_delete \<in> set (destructors :: (addr \<Rightarrow> unit memory \<Rightarrow> unit memory option) list)"
    by (simp add: destructors_def)
  from delete_null_is_noop [where 'n = unit, THEN bspec, OF mem, rule_format,
      of "\<lparr>objs = Map.empty(1 \<mapsto> Native_object ''cv::line_descriptor::LSDDetector'' ()), brk = 2\<rparr>"] mem
  show ?thesis
    by simp
qed

subsection \<open>Signatures\<close>

lemma all_entry_points:
  "list_all P entry_points \<Longrightarrow> \<forall>e \<in> set entry_points. P e"
  by (simp add: list_all_iff)

lemma length_entry_points:
  "length line_descriptor_entry_points = 89" "length ximgproc_entry_points = 130"
  by (simp_all add: table_defs)

lemma in_line_descriptor:
  "i < 89 \<Longrightarrow> line_descriptor_entry_points ! i \<in> set entry_points"
  by (simp add: entry_points_def length_entry_points)


text \<open>
  C2, as the code has it. Every entry point other than the six destructors is declared to
  return an envelope, \<^verbatim>\<open>Result_void\<close> or \<^verbatim>\<open>Result<T>\<close>; the six destructors are declared
  \<^verbatim>\<open>void\<close> and hand no envelope to the caller.
\<close>

theorem envelope_unless_destructor:
  "\<forall>e \<in> set entry_points.
     (is_destructor e \<longrightarrow> entry_returns e = Void) \<and>
     (\<not> is_destructor e \<longrightarrow> is_envelope (entry_returns e))"
  by (rule all_entry_points) (simp add: table_defs)

theorem envelope_unless_destructor_witness:
  "Entry_point ''cv_KeyLine_delete'' Void (Delete ''cv::line_descriptor::KeyLine'') \<in> set entry_points
   \<and> is_destructor (Entry_point ''cv_KeyLine_delete'' Void (Delete ''cv::line_descriptor::KeyLine''))
   \<and> entry_returns (Entry_point ''cv_KeyLine_delete'' Void (Delete ''cv::line_descriptor::KeyLine'')) = Void
   \<and> Entry_point ''cv_line_descriptor_KeyLine_KeyLine''
       (Result_of ''cv::line_descriptor::KeyLine*'') (Guarded_new ''cv::line_descriptor::KeyLine'')
       \<in> set entry_points
   \<and> \<not> is_destructor (Entry_point ''cv_line_descriptor_KeyLine_KeyLine''
       (Result_of ''cv::line_descriptor::KeyLine*'') (Guarded_new ''cv::line_descriptor::KeyLine''))
   \<and> is_envelope (entry_returns (Entry_point ''cv_line_descriptor_KeyLine_KeyLine''
       (Result_of ''cv::line_descriptor::KeyLine*'') (Guarded_new ''cv::line_descriptor::KeyLine'')))"
proof -
  have "line_descriptor_entry_points ! 78
      = Entry_point ''cv_KeyLine_delete'' Void (Delete ''cv::line_descriptor::KeyLine'')"
    by (simp add: line_descriptor_entry_points_def)
  with in_line_descriptor [of 78]
  have d: "Entry_point ''cv_KeyLine_delete'' Void (Delete ''cv::line_descriptor::KeyLine'') \<in> set entry_points"
    by simp
  have "line_descriptor_entry_points ! 83
      = Entry_point ''cv_line_descriptor_KeyLine_KeyLine''
          (Result_of ''cv::line_descriptor::KeyLine*'') (Guarded_new ''cv::line_descriptor::KeyLine'')"
    by (simp add: line_descriptor_entry_points_def)
  with in_line_descriptor [of 83]
  have c: "Entry_point ''cv_line_descriptor_KeyLine_KeyLine''
          (Result_of ''cv::line_descriptor::KeyLine*'') (Guarded_new ''cv::line_descriptor::KeyLine'')
        \<in> set entry_points"
    by simp
  from envelope_unless_destructor [THEN bspec, OF d] envelope_unless_destructor [THEN bspec, OF c] d c
  show ?thesis
    by simp
qed

text \<open>
  C2, as the claim states it, fails at \<^verbatim>\<open>cv_BinaryDescriptor_delete\<close>: the function is an entry
  point of the layer and is declared \<^verbatim>\<open>void\<close>.
\<close>

theorem destructor_returns_void_counterexample:
  "line_descriptor_entry_points ! 2
     = Entry_point ''cv_BinaryDescriptor_delete'' Void (Delete ''cv::line_descriptor::BinaryDescriptor'')
   \<and> line_descriptor_entry_points ! 2 \<in> set entry_points
   \<and> \<not> is_envelope (entry_returns (line_descriptor_entry_points ! 2))"
proof -
  have "line_descriptor_entry_points ! 2
      = Entry_point ''cv_BinaryDescriptor_delete'' Void (Delete ''cv::line_descriptor::BinaryDescriptor'')"
    by (simp add: line_descriptor_entry_points_def)
  with in_line_descriptor [of 2] show ?thesis
    by simp
qed








text \<open>A destructor is undefined on a live object of another class than its own.\<close>

lemma delete_of_other_class:
  "h \<noteq> nullptr \<Longrightarrow> objs m h = Some obj \<Longrightarrow> class_of obj \<noteq> T \<Longrightarrow> delete_object T h m = None"
  by (simp add: delete_object_def)





end
